theory Spec2Isabelle
  imports Main
begin

section \<open>Roles, profiles and sessions (src/types.ts)\<close>

text \<open>
  The TypeScript union \<^verbatim>\<open>type Role = 'STAFF' | 'STUDENT' | 'ADMIN' | 'SUDO'\<close>.
  Where the source takes a role as \<^verbatim>\<open>string | null | undefined\<close> (sudoGuard.ts) the model
  uses \<open>string option\<close>, with \<open>None\<close> for both \<^verbatim>\<open>null\<close> and \<^verbatim>\<open>undefined\<close>.
\<close>

datatype Role = STAFF | STUDENT | ADMIN | SUDO

fun roleText :: "Role \<Rightarrow> string" where
  "roleText STAFF = ''STAFF''"
| "roleText STUDENT = ''STUDENT''"
| "roleText ADMIN = ''ADMIN''"
| "roleText SUDO = ''SUDO''"

record User =
  user_id :: string
  user_id_number :: string
  user_role :: Role
  user_name :: string
  user_email :: "string option"
  user_is_active :: bool

text \<open>The part of a Supabase session that the application reads: the user's id and email.\<close>

record Session =
  session_user_id :: string
  session_user_email :: "string option"

text \<open>JavaScript truthiness of a \<^verbatim>\<open>string | null | undefined\<close> value.\<close>

definition truthy :: "string option \<Rightarrow> bool" where
  "truthy v = (case v of None \<Rightarrow> False | Some s \<Rightarrow> s \<noteq> [])"

section \<open>Strings: toLowerCase and trim\<close>

text \<open>
  A JavaScript string is modelled as a list of code units below 256 (Latin-1).
  \<open>toLowerCase\<close> maps A-Z and the Latin-1 capitals (U+00C0 to U+00DE except the
  multiplication sign U+00D7) to their small letters; \<open>trim\<close> strips the
  ECMAScript white space and line terminators of that range from both ends.
\<close>

definition toLowerCaseChar :: "char \<Rightarrow> char" where
  "toLowerCaseChar c =
     (let n = (of_char c :: nat)
      in if (65 \<le> n \<and> n \<le> 90) \<or> (192 \<le> n \<and> n \<le> 222 \<and> n \<noteq> 215)
         then char_of (n + 32) else c)"

definition toLowerCase :: "string \<Rightarrow> string" where
  "toLowerCase s = map toLowerCaseChar s"

definition isWhiteSpace :: "char \<Rightarrow> bool" where
  "isWhiteSpace c = ((of_char c :: nat) \<in> {9, 10, 11, 12, 13, 32, 160})"

definition trim :: "string \<Rightarrow> string" where
  "trim s = rev (dropWhile isWhiteSpace (rev (dropWhile isWhiteSpace s)))"

section \<open>Feature flags (lib/featureFlags.ts) and environment\<close>

text \<open>\<^verbatim>\<open>import.meta.env\<close>: a map from variable names to their string values.\<close>

type_synonym env = "string \<rightharpoonup> string"

definition readEnvFlag :: "env \<Rightarrow> string \<Rightarrow> bool" where
  "readEnvFlag env key = (env key = Some ''true'')"

record FeatureFlags =
  MAGIC_LINK :: bool
  STAFF_DOMAIN_ENFORCEMENT :: bool
  RBAC_V2 :: bool
  SUDO_ADMIN :: bool

definition FEATURE_FLAGS :: "env \<Rightarrow> FeatureFlags" where
  "FEATURE_FLAGS env =
     \<lparr> MAGIC_LINK = readEnvFlag env ''VITE_ENABLE_MAGIC_LINK_AUTH'',
       STAFF_DOMAIN_ENFORCEMENT = readEnvFlag env ''VITE_ENABLE_STAFF_DOMAIN_ENFORCEMENT'',
       RBAC_V2 = readEnvFlag env ''VITE_ENABLE_ROLE_BASED_ACCESS_V2'',
       SUDO_ADMIN = readEnvFlag env ''VITE_ENABLE_SUDO_ADMIN'' \<rparr>"

text \<open>The hook \<^verbatim>\<open>useFeatureFlags\<close> exposes \<^verbatim>\<open>rbacV2Enabled: flags.RBAC_V2\<close>.\<close>

definition rbacV2Enabled :: "env \<Rightarrow> bool" where
  "rbacV2Enabled env = RBAC_V2 (FEATURE_FLAGS env)"

section \<open>Console and requests to the external services\<close>

text \<open>
  The application is a thin client. Every call it makes to the console or to the
  backend is appended to a trace; every reply of the backend is an argument of the
  function that consumes it.
\<close>

datatype console_level = LogError | LogWarn | LogInfo

datatype payload = NoPayload | ErrPayload string | ObjPayload "(string \<times> string) list"

datatype console_entry = ConsoleEntry console_level string payload

text \<open>
  The \<^verbatim>\<open>p_details\<close> argument of the \<^verbatim>\<open>log_action\<close> RPC: a plain string (or null), or
  the object that the source hands to \<^verbatim>\<open>JSON.stringify\<close>, kept as its key/value list.
\<close>

datatype details = Text "string option" | Json "(string \<times> string) list"

record UserInsert =
  ins_id :: string
  ins_id_number :: string
  ins_role :: Role
  ins_name :: string
  ins_email :: "string option"
  ins_is_active :: bool

datatype request =
    Rpc_log_action string details
  | Auth_signInWithPassword string string
  | Auth_signUp string string
  | Users_selectById string
  | Users_insert UserInsert

record effects =
  console :: "console_entry list"
  requests :: "request list"

definition console_log :: "console_level \<Rightarrow> string \<Rightarrow> payload \<Rightarrow> 'a effects_scheme \<Rightarrow> 'a effects_scheme" where
  "console_log lvl msg p w = w\<lparr>console := console w @ [ConsoleEntry lvl msg p]\<rparr>"

definition send :: "request \<Rightarrow> 'a effects_scheme \<Rightarrow> 'a effects_scheme" where
  "send r w = w\<lparr>requests := requests w @ [r]\<rparr>"

text \<open>
  How a call can end: it returns a value, or it throws (for an async function: its
  promise rejects).
\<close>

datatype 'a outcome = Returned 'a | Thrown string

text \<open>
  The three ways \<^verbatim>\<open>await supabase.rpc(...)\<close> can end: the promise resolves with data,
  resolves with an error object, or rejects.
\<close>

datatype rpc_reply = RpcData string | RpcError string | RpcRejects string

section \<open>The SUDO guard (lib/sudoGuard.ts)\<close>

definition SUDO_ROLE :: string where
  "SUDO_ROLE = ''SUDO''"

definition PERSISTABLE_ROLES :: "string list" where
  "PERSISTABLE_ROLES = [''STAFF'', ''STUDENT'', ''ADMIN'']"

definition isRolePersistable :: "string option \<Rightarrow> bool" where
  "isRolePersistable role =
     (case role of
        None \<Rightarrow> False
      | Some r \<Rightarrow> if r = [] then False else r \<in> set PERSISTABLE_ROLES)"

text \<open>
  \<open>assertNotSudoForPersistence role context now\<close>: \<open>now\<close> is the reading of
  \<^verbatim>\<open>new Date().toISOString()\<close>. The audit RPC is sent and not awaited.
\<close>

definition assertNotSudoForPersistence ::
  "string option \<Rightarrow> string \<Rightarrow> string \<Rightarrow> effects \<Rightarrow> unit outcome \<times> effects" where
  "assertNotSudoForPersistence role context now w =
     (if role = Some SUDO_ROLE then
        (let errorMessage =
               ''[SUDO_GUARD] BLOCKED: Attempt to persist SUDO role to database in '' @ context;
             w1 = console_log LogError errorMessage NoPayload w;
             w2 = send (Rpc_log_action ''SUDO_PERSISTENCE_BLOCKED''
                          (Json [(''context'', context), (''timestamp'', now)])) w1
         in (Thrown ''SUDO role cannot be persisted to database'', w2))
      else (Returned (), w))"

text \<open>
  The \<^verbatim>\<open>.then\<close> callback of that RPC, when its promise resolves: an error result is
  logged.
\<close>

definition assertNotSudoForPersistence_logged :: "rpc_reply \<Rightarrow> effects \<Rightarrow> effects" where
  "assertNotSudoForPersistence_logged reply w =
     (case reply of
        RpcError e \<Rightarrow> console_log LogError ''[SUDO_GUARD] Failed to log:'' (ErrPayload e) w
      | _ \<Rightarrow> w)"

definition sanitizeRoleForPersistence :: "string option \<Rightarrow> effects \<Rightarrow> string option \<times> effects" where
  "sanitizeRoleForPersistence role w =
     (if \<not> truthy role then (None, w)
      else if role = Some SUDO_ROLE then
        (None, console_log LogWarn ''[SUDO_GUARD] Sanitized SUDO role to null for persistence'' NoPayload w)
      else if isRolePersistable role then (role, w)
      else (None, w))"

definition isSudoSession :: "env \<Rightarrow> string option \<Rightarrow> bool" where
  "isSudoSession env userEmail =
     (if \<not> SUDO_ADMIN (FEATURE_FLAGS env) then False
      else
        (let sudoEmail = env ''VITE_SUDO_ADMIN_EMAIL''
         in if \<not> truthy sudoEmail \<or> \<not> truthy userEmail then False
            else
              (case (userEmail, sudoEmail) of
                 (Some u, Some s) \<Rightarrow> trim (toLowerCase u) = trim (toLowerCase s)
               | _ \<Rightarrow> False)))"

definition getEffectiveRole :: "env \<Rightarrow> string option \<Rightarrow> string option \<Rightarrow> string option" where
  "getEffectiveRole env dbRole userEmail =
     (if isSudoSession env userEmail then Some SUDO_ROLE else dbRole)"

text \<open>
  The condition of the specification for the override, in its words: the sudo feature
  is enabled, an override email is configured, and the identity email equals it after
  lowercasing and trimming both sides. An absent identity email equals nothing.
\<close>

definition spec_sudo_override :: "env \<Rightarrow> string option \<Rightarrow> bool" where
  "spec_sudo_override env identityEmail =
     (env ''VITE_ENABLE_SUDO_ADMIN'' = Some ''true'' \<and>
      (\<exists>configured. env ''VITE_SUDO_ADMIN_EMAIL'' = Some configured \<and> configured \<noteq> [] \<and>
         (\<exists>e. identityEmail = Some e \<and>
              trim (toLowerCase e) = trim (toLowerCase configured))))"

section \<open>Route guards (components/RBACGuard.tsx, components/ProtectedRoute.tsx)\<close>

text \<open>
  What \<^verbatim>\<open>useAuth()\<close> hands to a component: the value object of the provider, with
  \<^verbatim>\<open>role: user?.role ?? null\<close> and \<^verbatim>\<open>isAuthenticated: !!session && !!user\<close>.
\<close>

record AuthContextValue =
  ctx_session :: "Session option"
  ctx_user :: "User option"
  ctx_role :: "Role option"
  ctx_isLoading :: bool
  ctx_isAuthenticated :: bool

definition authContextValue :: "Session option \<Rightarrow> User option \<Rightarrow> bool \<Rightarrow> AuthContextValue" where
  "authContextValue s u loading =
     \<lparr> ctx_session = s, ctx_user = u, ctx_role = map_option user_role u,
       ctx_isLoading = loading, ctx_isAuthenticated = (s \<noteq> None \<and> u \<noteq> None) \<rparr>"

datatype nav_state = StateFrom string | StateAccessDenied

text \<open>What a guard renders. \<open>NavigateTo path state\<close> is \<^verbatim>\<open><Navigate to=... state=... replace />\<close>.\<close>

datatype element =
    LoadingScreen string
  | NavigateTo string nav_state
  | Children
  | Outlet

text \<open>
  The optional property \<^verbatim>\<open>fallbackPath = '/dashboard'\<close>: \<open>None\<close> when the caller leaves
  it out.
\<close>

definition fallbackPathOrDefault :: "string option \<Rightarrow> string" where
  "fallbackPathOrDefault fallbackPath =
     (case fallbackPath of None \<Rightarrow> ''/dashboard'' | Some path \<Rightarrow> path)"

definition RBACGuard ::
  "env \<Rightarrow> AuthContextValue \<Rightarrow> string \<Rightarrow> Role list \<Rightarrow> string option \<Rightarrow> element" where
  "RBACGuard env auth location allowedRoles fallbackPath =
     (if ctx_isLoading auth then LoadingScreen ''Verifying access...''
      else if \<not> ctx_isAuthenticated auth then NavigateTo ''/login'' (StateFrom location)
      else if \<not> rbacV2Enabled env then Children
      else case ctx_role auth of
        None \<Rightarrow> NavigateTo (fallbackPathOrDefault fallbackPath) StateAccessDenied
      | Some role \<Rightarrow>
          if role = SUDO then Children
          else if role \<in> set allowedRoles then Children
          else if role = ADMIN \<and> list_ex (\<lambda>r. r = STAFF \<or> r = STUDENT \<or> r = ADMIN) allowedRoles
               then Children
          else NavigateTo (fallbackPathOrDefault fallbackPath) StateAccessDenied)"

text \<open>
  \<open>ProtectedRoute\<close>: \<open>allowedRoles\<close> is optional (\<open>None\<close> when the property is
  absent), and so are the children (\<open>hasChildren\<close>).
\<close>

definition ProtectedRoute ::
  "AuthContextValue \<Rightarrow> string \<Rightarrow> Role list option \<Rightarrow> bool \<Rightarrow> element" where
  "ProtectedRoute auth location allowedRoles hasChildren =
     (if ctx_isLoading auth then LoadingScreen ''Verifying session...''
      else if \<not> ctx_isAuthenticated auth then NavigateTo ''/login'' (StateFrom location)
      else
        (let rendered = (if hasChildren then Children else Outlet)
         in case allowedRoles of
              None \<Rightarrow> rendered
            | Some rs \<Rightarrow>
                if length rs > 0 then
                  (case ctx_role auth of
                     None \<Rightarrow> NavigateTo ''/dashboard'' StateAccessDenied
                   | Some role \<Rightarrow>
                       if role \<notin> set rs then NavigateTo ''/dashboard'' StateAccessDenied
                       else rendered)
                else rendered))"

section \<open>The audit emitters (lib/supabase.ts, lib/authEventLog.ts)\<close>

text \<open>
  \<open>logAction\<close> in two halves, split at its \<^verbatim>\<open>await supabase.rpc('log_action', args)\<close>:
  the request goes out, and the reply is handled. \<open>logAction\<close> is the whole call.
\<close>

definition logAction_send :: "string \<Rightarrow> string option \<Rightarrow> 'a effects_scheme \<Rightarrow> 'a effects_scheme" where
  "logAction_send action details w = send (Rpc_log_action action (Text details)) w"

definition logAction_resume :: "rpc_reply \<Rightarrow> 'a effects_scheme \<Rightarrow> unit outcome \<times> 'a effects_scheme" where
  "logAction_resume reply w =
     (case reply of
        RpcRejects ex \<Rightarrow> (Thrown ex, w)
      | RpcError e \<Rightarrow> (Returned (), console_log LogError ''Error logging action:'' (ErrPayload e) w)
      | RpcData d \<Rightarrow> (Returned (), w))"

definition logAction ::
  "string \<Rightarrow> string option \<Rightarrow> rpc_reply \<Rightarrow> 'a effects_scheme \<Rightarrow> unit outcome \<times> 'a effects_scheme" where
  "logAction action details reply w = logAction_resume reply (logAction_send action details w)"

datatype AuthEventType =
    MAGIC_LINK_SENT
  | MAGIC_LINK_VERIFIED
  | MAGIC_LINK_EXPIRED
  | MAGIC_LINK_FAILED
  | STAFF_DOMAIN_VALIDATION_FAILURE
  | ADMIN_PASSWORD_RESET
  | SUDO_ACTION_INVOKED
  | SUDO_PERSISTENCE_BLOCKED
  | SESSION_EXPIRED_V2
  | AUTH_PROVIDER_SET

fun eventText :: "AuthEventType \<Rightarrow> string" where
  "eventText MAGIC_LINK_SENT = ''MAGIC_LINK_SENT''"
| "eventText MAGIC_LINK_VERIFIED = ''MAGIC_LINK_VERIFIED''"
| "eventText MAGIC_LINK_EXPIRED = ''MAGIC_LINK_EXPIRED''"
| "eventText MAGIC_LINK_FAILED = ''MAGIC_LINK_FAILED''"
| "eventText STAFF_DOMAIN_VALIDATION_FAILURE = ''STAFF_DOMAIN_VALIDATION_FAILURE''"
| "eventText ADMIN_PASSWORD_RESET = ''ADMIN_PASSWORD_RESET''"
| "eventText SUDO_ACTION_INVOKED = ''SUDO_ACTION_INVOKED''"
| "eventText SUDO_PERSISTENCE_BLOCKED = ''SUDO_PERSISTENCE_BLOCKED''"
| "eventText SESSION_EXPIRED_V2 = ''SESSION_EXPIRED_V2''"
| "eventText AUTH_PROVIDER_SET = ''AUTH_PROVIDER_SET''"

text \<open>
  Object literals with a spread: \<open>setKey\<close> assigns one property (an existing key keeps
  its place), \<open>assign\<close> assigns the properties of a second object in their order.
\<close>

fun setKey :: "string \<Rightarrow> string \<Rightarrow> (string \<times> string) list \<Rightarrow> (string \<times> string) list" where
  "setKey k v [] = [(k, v)]"
| "setKey k v ((k', v') # kvs) = (if k = k' then (k, v) # kvs else (k', v') # setKey k v kvs)"

definition assign :: "(string \<times> string) list \<Rightarrow> (string \<times> string) list \<Rightarrow> (string \<times> string) list" where
  "assign obj src = foldl (\<lambda>acc kv. setKey (fst kv) (snd kv) acc) obj src"

text \<open>
  \<open>logAuthEvent eventType details now reply\<close>: \<open>now\<close> is the reading of
  \<^verbatim>\<open>new Date().toISOString()\<close>, \<open>reply\<close> is how the awaited RPC ends.
\<close>

definition logAuthEvent ::
  "AuthEventType \<Rightarrow> (string \<times> string) list \<Rightarrow> string \<Rightarrow> rpc_reply \<Rightarrow>
   'a effects_scheme \<Rightarrow> unit outcome \<times> 'a effects_scheme" where
  "logAuthEvent eventType details now reply w =
     (let timestamp = now;
          logEntry = assign [(''event'', eventText eventType), (''timestamp'', timestamp)] details;
          w1 = console_log LogInfo (''[AuthEvent] '' @ eventText eventType @ '':'') (ObjPayload logEntry) w;
          detailsString = Json (setKey ''logged_at'' timestamp details);
          w2 = send (Rpc_log_action (''AUTH_EVENT:'' @ eventText eventType) detailsString) w1
      in case reply of
           RpcRejects ex \<Rightarrow>
             (Returned (), console_log LogError ''[AuthEvent] Failed to persist log:'' (ErrPayload ex) w2)
         | RpcError e \<Rightarrow> (Returned (), w2)
         | RpcData d \<Rightarrow> (Returned (), w2))"

section \<open>The store: constraints and row-level security (supabase/schema.sql)\<close>

text \<open>
  schema.sql creates the tables, their constraints and their policies; the auth upgrade
  migration (v2) replaces \<open>users_role_check\<close> and adds the \<open>sudo_*\<close> policies.
\<close>

datatype schema_version = BaseSchema | AuthUpgradeV2

definition users_role_check :: "schema_version \<Rightarrow> string \<Rightarrow> bool" where
  "users_role_check ver role =
     (case ver of
        BaseSchema \<Rightarrow> role \<in> set [''STAFF'', ''STUDENT'', ''ADMIN'']
      | AuthUpgradeV2 \<Rightarrow> role \<in> set [''STAFF'', ''STUDENT'', ''ADMIN'', ''SUDO''])"

text \<open>
  Row-level security is enabled on the three tables. A policy belongs to a table and a
  command (\<^verbatim>\<open>FOR SELECT\<close>, ..., or \<^verbatim>\<open>FOR ALL\<close>) and has one condition, its \<^verbatim>\<open>USING\<close> or
  \<^verbatim>\<open>WITH CHECK\<close> expression. No policy names a role, so each applies to every role. The
  conditions that occur are
  \<^verbatim>\<open>auth.uid() = id\<close>, \<^verbatim>\<open>auth.uid() IS NOT NULL\<close>, \<^verbatim>\<open>id != auth.uid()\<close>, a conjunction, and
  \<^verbatim>\<open>EXISTS (SELECT 1 FROM public.users WHERE id = auth.uid() AND c)\<close>, where \<open>c\<close> is
  \<^verbatim>\<open>role = 'R'\<close> or \<^verbatim>\<open>(role = 'R' OR role = target_role)\<close>.
\<close>

datatype table = Users | Tutorials | Audit_logs

datatype operation = SELECT | INSERT | UPDATE | DELETE

datatype command = For operation | For_all

datatype user_cond = Role_is string | Role_is_or_target_role string

datatype cond =
    Uid_is_id
  | Uid_is_not_null
  | Id_is_not_uid
  | Exists_user user_cond
  | Both cond cond

record policy =
  policy_name :: string
  policy_table :: table
  policy_command :: command
  policy_cond :: cond

text \<open>The policies of schema.sql, in the order of the file.\<close>

definition base_policies :: "policy list" where
  "base_policies =
     [\<lparr>policy_name = ''users_read_own'', policy_table = Users,
        policy_command = For SELECT, policy_cond = Uid_is_id\<rparr>,
      \<lparr>policy_name = ''admins_read_all_users'', policy_table = Users,
        policy_command = For SELECT, policy_cond = Exists_user (Role_is ''ADMIN'')\<rparr>,
      \<lparr>policy_name = ''admins_insert_users'', policy_table = Users,
        policy_command = For INSERT, policy_cond = Exists_user (Role_is ''ADMIN'')\<rparr>,
      \<lparr>policy_name = ''admins_update_users'', policy_table = Users,
        policy_command = For UPDATE, policy_cond = Exists_user (Role_is ''ADMIN'')\<rparr>,
      \<lparr>policy_name = ''admins_delete_users'', policy_table = Users,
        policy_command = For DELETE, policy_cond = Exists_user (Role_is ''ADMIN'')\<rparr>,
      \<lparr>policy_name = ''users_read_role_tutorials'', policy_table = Tutorials,
        policy_command = For SELECT,
        policy_cond = Exists_user (Role_is_or_target_role ''ADMIN'')\<rparr>,
      \<lparr>policy_name = ''admins_insert_tutorials'', policy_table = Tutorials,
        policy_command = For INSERT, policy_cond = Exists_user (Role_is ''ADMIN'')\<rparr>,
      \<lparr>policy_name = ''admins_update_tutorials'', policy_table = Tutorials,
        policy_command = For UPDATE, policy_cond = Exists_user (Role_is ''ADMIN'')\<rparr>,
      \<lparr>policy_name = ''admins_delete_tutorials'', policy_table = Tutorials,
        policy_command = For DELETE, policy_cond = Exists_user (Role_is ''ADMIN'')\<rparr>,
      \<lparr>policy_name = ''admins_read_logs'', policy_table = Audit_logs,
        policy_command = For SELECT, policy_cond = Exists_user (Role_is ''ADMIN'')\<rparr>,
      \<lparr>policy_name = ''authenticated_insert_logs'', policy_table = Audit_logs,
        policy_command = For INSERT, policy_cond = Uid_is_not_null\<rparr>]"

text \<open>The policies that the migration adds.\<close>

definition sudo_policies :: "policy list" where
  "sudo_policies =
     [\<lparr>policy_name = ''sudo_read_all_users'', policy_table = Users,
        policy_command = For SELECT, policy_cond = Exists_user (Role_is ''SUDO'')\<rparr>,
      \<lparr>policy_name = ''sudo_insert_users'', policy_table = Users,
        policy_command = For INSERT, policy_cond = Exists_user (Role_is ''SUDO'')\<rparr>,
      \<lparr>policy_name = ''sudo_update_users'', policy_table = Users,
        policy_command = For UPDATE, policy_cond = Exists_user (Role_is ''SUDO'')\<rparr>,
      \<lparr>policy_name = ''sudo_delete_users'', policy_table = Users,
        policy_command = For DELETE,
        policy_cond = Both (Exists_user (Role_is ''SUDO'')) Id_is_not_uid\<rparr>,
      \<lparr>policy_name = ''sudo_read_all_logs'', policy_table = Audit_logs,
        policy_command = For SELECT, policy_cond = Exists_user (Role_is ''SUDO'')\<rparr>,
      \<lparr>policy_name = ''sudo_read_all_tutorials'', policy_table = Tutorials,
        policy_command = For SELECT, policy_cond = Exists_user (Role_is ''SUDO'')\<rparr>,
      \<lparr>policy_name = ''sudo_manage_tutorials'', policy_table = Tutorials,
        policy_command = For_all, policy_cond = Exists_user (Role_is ''SUDO'')\<rparr>]"

definition schema_policies :: "schema_version \<Rightarrow> policy list" where
  "schema_policies ver =
     (case ver of BaseSchema \<Rightarrow> base_policies | AuthUpgradeV2 \<Rightarrow> base_policies @ sudo_policies)"

text \<open>
  A statement that the application's client sends (\<^verbatim>\<open>supabase.from(t).select/insert/update/delete\<close>).
  The client connects with the project's anon key, as the database role \<^verbatim>\<open>anon\<close> or
  \<^verbatim>\<open>authenticated\<close>; row-level security applies to both. \<open>st_reads\<close> tells whether an
  insert, update or delete also reads columns of the table (a \<^verbatim>\<open>WHERE\<close> clause such as
  \<^verbatim>\<open>.eq('id', userId)\<close>, or returned rows), so that it needs the right to select.
\<close>

record statement =
  st_table :: table
  st_operation :: operation
  st_reads :: bool

text \<open>The tables that the subqueries of a condition select from.\<close>

fun sublinks :: "cond \<Rightarrow> table list" where
  "sublinks (Exists_user c) = [Users]"
| "sublinks (Both a b) = sublinks a @ sublinks b"
| "sublinks Uid_is_id = []"
| "sublinks Uid_is_not_null = []"
| "sublinks Id_is_not_uid = []"

text \<open>
  The policies whose conditions the store attaches to a statement: those of its table
  for its command or for all commands, and also those for \<^verbatim>\<open>SELECT\<close> when the statement
  reads the table.
\<close>

definition policies_for :: "policy list \<Rightarrow> table \<Rightarrow> operation \<Rightarrow> policy list" where
  "policies_for ps t op =
     filter (\<lambda>p. policy_table p = t \<and> (policy_command p = For op \<or> policy_command p = For_all)) ps"

definition policies_applied :: "policy list \<Rightarrow> statement \<Rightarrow> policy list" where
  "policies_applied ps st =
     policies_for ps (st_table st) (st_operation st) @
     (if st_operation st \<noteq> SELECT \<and> st_reads st
      then policies_for ps (st_table st) SELECT else [])"

definition subselect :: "table \<Rightarrow> statement" where
  "subselect t = \<lparr>st_table = t, st_operation = SELECT, st_reads = True\<rparr>"

text \<open>
  SQLSTATE 42P17, \<^verbatim>\<open>infinite recursion detected in policy for relation "t"\<close>.
\<close>

datatype store_error = Infinite_recursion table

fun firstError :: "'e option list \<Rightarrow> 'e option" where
  "firstError [] = None"
| "firstError (Some e # rest) = Some e"
| "firstError (None # rest) = firstError rest"

text \<open>
  Before a statement is executed, the store's rewriter attaches the conditions of the
  policies to it. When these conditions contain subqueries, it rewrites the subqueries
  in the same way, each a \<^verbatim>\<open>SELECT\<close> on its table with that table's policies attached,
  and keeps the list \<open>activeRIRs\<close> of the tables whose policies it is expanding. Coming
  to a table that is already in the list, it raises the error; this depends on the
  policies alone, not on the rows or on who asks.
\<close>

function fireRIRrules :: "policy list \<Rightarrow> table list \<Rightarrow> statement \<Rightarrow> store_error option" where
  "fireRIRrules ps activeRIRs st =
     (let subs = concat (map (\<lambda>p. sublinks (policy_cond p)) (policies_applied ps st))
      in if subs = [] then None
         else if st_table st \<in> set activeRIRs then Some (Infinite_recursion (st_table st))
         else firstError
                (map (\<lambda>t. fireRIRrules ps (activeRIRs @ [st_table st]) (subselect t)) subs))"
  by pat_completeness auto
termination
proof (relation "measure (\<lambda>(ps, activeRIRs, st).
          length (filter (\<lambda>t. t \<notin> set activeRIRs) [Users, Tutorials, Audit_logs]))")
  show "wf (measure (\<lambda>(ps, activeRIRs, st).
          length (filter (\<lambda>t. t \<notin> set activeRIRs) [Users, Tutorials, Audit_logs])))"
    by simp
next
  fix ps :: "policy list" and activeRIRs :: "table list" and st :: statement
    and subs :: "table list" and t :: table
  assume "st_table st \<notin> set activeRIRs"
  then show "((ps, activeRIRs @ [st_table st], subselect t), (ps, activeRIRs, st))
      \<in> measure (\<lambda>(ps, activeRIRs, st).
          length (filter (\<lambda>t. t \<notin> set activeRIRs) [Users, Tutorials, Audit_logs]))"
    by (cases "st_table st") auto
qed

declare fireRIRrules.simps [simp del]

text \<open>
  The store's answer to a client statement: it is refused with the rewriter's error and
  nothing is read or written, or it goes on to execution with the conditions of the
  listed policies attached. Execution is not part of the model.
\<close>

datatype answer = Refused store_error | Rewritten "policy list"

definition rewrite :: "policy list \<Rightarrow> statement \<Rightarrow> answer" where
  "rewrite ps st =
     (case fireRIRrules ps [] st of
        Some e \<Rightarrow> Refused e
      | None \<Rightarrow> Rewritten (policies_applied ps st))"

section \<open>The auth provider and the login pages (hooks/useAuth.tsx, views/LoginPage.tsx, views/MagicLinkVerify.tsx, views/LoginPageV2.tsx)\<close>

text \<open>
  One record holds the state of \<open>AuthProvider\<close> (\<open>session\<close>, \<open>user\<close>, its \<open>isLoading\<close>,
  which the page calls \<open>authLoading\<close>), the state of \<open>LoginPage\<close> (\<open>error\<close>, \<open>isLoading\<close>,
  \<open>loginAttempted\<close>, \<open>loginTimeoutRef\<close>), the browser's clock and pending timers, and the
  traces of console output, backend requests and navigations. \<open>mounted\<close> tells whether
  this \<open>LoginPage\<close> is still on screen; \<open>AuthProvider\<close> wraps the router and stays.

  An async function is split at each \<^verbatim>\<open>await\<close>; \<open>pc\<close> records where the \<open>handleLogin\<close>
  call in flight is suspended. A timer handle is a number and counts as truthy.
  \<open>lastRender\<close> holds the effect dependencies of the previous render.
\<close>

datatype pc = Idle | InSignInWithPassword string | InLogAction

record RenderDeps =
  dep_loginAttempted :: bool
  dep_isAuthenticated :: bool
  dep_role :: "Role option"
  dep_from :: string
  dep_authLoading :: bool
  dep_session :: "Session option"

record World = effects +
  session :: "Session option"
  user :: "User option"
  authLoading :: bool
  error :: string
  isLoading :: bool
  loginAttempted :: bool
  loginTimeoutRef :: "nat option"
  locationFrom :: "string option"
  navigated :: "string list"
  lastRender :: "RenderDeps option"
  pc :: pc
  clock :: nat
  timers :: "(nat \<times> nat) list"
  nextTimer :: nat
  mounted :: bool

definition isAuthenticated :: "World \<Rightarrow> bool" where
  "isAuthenticated w = (session w \<noteq> None \<and> user w \<noteq> None)"

definition role :: "World \<Rightarrow> Role option" where
  "role w = map_option user_role (user w)"

text \<open>\<^verbatim>\<open>(location.state as ...)?.from?.pathname || '/dashboard'\<close>\<close>

definition from_path :: "World \<Rightarrow> string" where
  "from_path w =
     (case locationFrom w of
        Some pathname \<Rightarrow> if pathname \<noteq> [] then pathname else ''/dashboard''
      | None \<Rightarrow> ''/dashboard'')"

text \<open>
  \<^verbatim>\<open>navigate(to, { replace: true })\<close> is recorded. App.tsx renders \<open>LoginPage\<close> for the
  route \<^verbatim>\<open>/login\<close> only, and the page navigates to \<^verbatim>\<open>/admin\<close>, to \<^verbatim>\<open>/dashboard\<close> or to
  \<open>from\<close>, the location that a route guard recorded when it redirected to the login
  page; so a navigation leads away from the page, and the router unmounts it once the
  effects of the current render have run (see \<open>render\<close>).
\<close>

definition navigate :: "string \<Rightarrow> World \<Rightarrow> World" where
  "navigate to w = w\<lparr>navigated := navigated w @ [to]\<rparr>"

text \<open>
  The state setters of the page. React drops a state update of a component that is no
  longer mounted.
\<close>

definition setError :: "string \<Rightarrow> World \<Rightarrow> World" where
  "setError e w = (if mounted w then w\<lparr>error := e\<rparr> else w)"

definition setIsLoading :: "bool \<Rightarrow> World \<Rightarrow> World" where
  "setIsLoading b w = (if mounted w then w\<lparr>isLoading := b\<rparr> else w)"

definition setLoginAttempted :: "bool \<Rightarrow> World \<Rightarrow> World" where
  "setLoginAttempted b w = (if mounted w then w\<lparr>loginAttempted := b\<rparr> else w)"

definition LOGIN_TIMEOUT_MS :: nat where
  "LOGIN_TIMEOUT_MS = 10000"

definition MSG_LOGIN_FAILED :: string where
  "MSG_LOGIN_FAILED = ''Login failed. Please check your credentials.''"

definition MSG_ACCOUNT_NOT_FOUND :: string where
  "MSG_ACCOUNT_NOT_FOUND =
     ''Account not found. Your authentication succeeded but your user profile is not set up. Please contact an administrator.''"

definition MSG_LOGIN_TIMEOUT :: string where
  "MSG_LOGIN_TIMEOUT =
     ''Login is taking too long. Your account may not be properly configured. Please contact an administrator.''"

subsection \<open>Timers\<close>

definition setTimeout :: "nat \<Rightarrow> World \<Rightarrow> nat \<times> World" where
  "setTimeout delay w =
     (nextTimer w,
      w\<lparr>timers := timers w @ [(nextTimer w, clock w + delay)], nextTimer := Suc (nextTimer w)\<rparr>)"

definition clearTimeout :: "nat \<Rightarrow> World \<Rightarrow> World" where
  "clearTimeout t w = w\<lparr>timers := filter (\<lambda>p. fst p \<noteq> t) (timers w)\<rparr>"

text \<open>The callback that \<open>handleLogin\<close> schedules.\<close>

definition loginTimeout_callback :: "World \<Rightarrow> World" where
  "loginTimeout_callback w =
     setLoginAttempted False (setIsLoading False (setError MSG_LOGIN_TIMEOUT w))"

text \<open>
  The clock advances by \<open>n\<close> milliseconds: every pending timer whose deadline has been
  reached is removed and its callback runs.
\<close>

definition advanceClock :: "nat \<Rightarrow> World \<Rightarrow> World" where
  "advanceClock n w =
     (let now = clock w + n;
          due = filter (\<lambda>p. snd p \<le> now) (timers w);
          w1 = w\<lparr>clock := now, timers := filter (\<lambda>p. \<not> snd p \<le> now) (timers w)\<rparr>
      in foldl (\<lambda>acc p. loginTimeout_callback acc) w1 due)"

subsection \<open>AuthProvider\<close>

text \<open>The reply \<^verbatim>\<open>{ data, error }\<close> of the profile query.\<close>

record profile_reply =
  reply_data :: "User option"
  reply_error :: "string option"

definition fetchUserProfile_send :: "string \<Rightarrow> World \<Rightarrow> World" where
  "fetchUserProfile_send userId w = send (Users_selectById userId) w"

definition fetchUserProfile_resume :: "profile_reply \<Rightarrow> World \<Rightarrow> User option \<times> World" where
  "fetchUserProfile_resume reply w =
     (case reply_error reply of
        Some e \<Rightarrow> (None, console_log LogError ''Error fetching user profile:'' (ErrPayload e) w)
      | None \<Rightarrow> (reply_data reply, w))"

text \<open>
  The two callbacks of the init effect, up to their \<^verbatim>\<open>await fetchUserProfile(...)\<close>, and
  their common continuation \<^verbatim>\<open>setUser(profile); setIsLoading(false)\<close>.
\<close>

definition getSession_then :: "Session option \<Rightarrow> World \<Rightarrow> World" where
  "getSession_then s w =
     (case s of
        Some sess \<Rightarrow> fetchUserProfile_send (session_user_id sess) (w\<lparr>session := s\<rparr>)
      | None \<Rightarrow> w\<lparr>session := None, authLoading := False\<rparr>)"

definition onAuthStateChange :: "Session option \<Rightarrow> World \<Rightarrow> World" where
  "onAuthStateChange s w =
     (case s of
        Some sess \<Rightarrow> fetchUserProfile_send (session_user_id sess) (w\<lparr>session := s\<rparr>)
      | None \<Rightarrow> w\<lparr>session := None, user := None, authLoading := False\<rparr>)"

definition profile_resolved :: "profile_reply \<Rightarrow> World \<Rightarrow> World" where
  "profile_resolved reply w =
     (case fetchUserProfile_resume reply w of
        (profile, w1) \<Rightarrow> w1\<lparr>user := profile, authLoading := False\<rparr>)"

text \<open>
  \<open>signIn\<close>: up to \<^verbatim>\<open>await supabase.auth.signInWithPassword\<close>; then, with the reply's error
  (\<open>None\<close> for null, otherwise the error's message), up to \<^verbatim>\<open>await logAction\<close> when there
  is no error; and its end \<^verbatim>\<open>setIsLoading(false); return { error }\<close>.
\<close>

definition signIn_begin :: "string \<Rightarrow> string \<Rightarrow> World \<Rightarrow> World" where
  "signIn_begin email password w =
     send (Auth_signInWithPassword email password) (w\<lparr>authLoading := True\<rparr>)"

definition signIn_logLogin :: "string \<Rightarrow> World \<Rightarrow> World" where
  "signIn_logLogin email w = logAction_send ''LOGIN'' (Some (''User logged in: '' @ email)) w"

definition signIn_end :: "string option \<Rightarrow> World \<Rightarrow> string option \<times> World" where
  "signIn_end err w = (err, w\<lparr>authLoading := False\<rparr>)"

subsection \<open>LoginPage\<close>

definition handleLogin_begin :: "string \<Rightarrow> string \<Rightarrow> World \<Rightarrow> World" where
  "handleLogin_begin email password w =
     signIn_begin email password (setIsLoading True (setError [] w))"

text \<open>
  \<open>handleLogin\<close> after \<^verbatim>\<open>await signIn(email, password)\<close>, with the returned error. It
  runs whether or not the page is still mounted; the timer is scheduled in either case.
\<close>

definition handleLogin_afterSignIn :: "string option \<Rightarrow> World \<Rightarrow> World" where
  "handleLogin_afterSignIn authError w =
     (case authError of
        Some message \<Rightarrow>
          setIsLoading False (setError (if message \<noteq> [] then message else MSG_LOGIN_FAILED) w)
      | None \<Rightarrow>
          (case setTimeout LOGIN_TIMEOUT_MS (setLoginAttempted True w) of
             (t, w1) \<Rightarrow> w1\<lparr>loginTimeoutRef := Some t\<rparr>))"

text \<open>
  The three effects. \<open>r\<close> is the state of the render whose closure the effect reads;
  the ref is read and the updates are made on the current state \<open>w\<close>.
\<close>

definition clearLoginTimeout :: "World \<Rightarrow> World" where
  "clearLoginTimeout w =
     (case loginTimeoutRef w of
        Some t \<Rightarrow> (clearTimeout t w)\<lparr>loginTimeoutRef := None\<rparr>
      | None \<Rightarrow> w)"

definition effect_loginSuccess :: "World \<Rightarrow> World \<Rightarrow> World" where
  "effect_loginSuccess r w =
     (if loginAttempted r \<and> isAuthenticated r \<and> role r \<noteq> None then
        (let w1 = clearLoginTimeout w;
             w2 = setIsLoading False w1
         in if role r = Some ADMIN then navigate ''/admin'' w2 else navigate (from_path r) w2)
      else w)"

definition effect_profileNotFound :: "World \<Rightarrow> World \<Rightarrow> World" where
  "effect_profileNotFound r w =
     (if loginAttempted r \<and> \<not> authLoading r \<and> session r \<noteq> None \<and> \<not> isAuthenticated r then
        (let w1 = clearLoginTimeout w
         in setLoginAttempted False (setIsLoading False (setError MSG_ACCOUNT_NOT_FOUND w1)))
      else w)"

definition effect_alreadyAuthenticated :: "World \<Rightarrow> World \<Rightarrow> World" where
  "effect_alreadyAuthenticated r w =
     (if isAuthenticated r \<and> role r \<noteq> None then
        (if role r = Some ADMIN then navigate ''/admin'' w else navigate ''/dashboard'' w)
      else w)"

text \<open>
  The cleanup of the fourth effect, \<^verbatim>\<open>if (loginTimeoutRef.current) clearTimeout(loginTimeoutRef.current)\<close>,
  runs when the page is unmounted.
\<close>

definition unmount :: "World \<Rightarrow> World" where
  "unmount w =
     (case loginTimeoutRef w of Some t \<Rightarrow> clearTimeout t w | None \<Rightarrow> w)\<lparr>mounted := False\<rparr>"

text \<open>
  Rendering: an effect runs when one of its dependencies differs from the previous
  render (or there was none). When the effects have navigated, the router replaces the
  page and it is unmounted; an unmounted page renders no more. Otherwise the effects' own
  updates cause one more render.
\<close>

definition depsOf :: "World \<Rightarrow> RenderDeps" where
  "depsOf w =
     \<lparr> dep_loginAttempted = loginAttempted w, dep_isAuthenticated = isAuthenticated w,
       dep_role = role w, dep_from = from_path w, dep_authLoading = authLoading w,
       dep_session = session w \<rparr>"

definition depsChanged :: "(RenderDeps \<Rightarrow> 'a) \<Rightarrow> World \<Rightarrow> bool" where
  "depsChanged f w = (case lastRender w of None \<Rightarrow> True | Some d \<Rightarrow> f d \<noteq> f (depsOf w))"

definition render :: "World \<Rightarrow> World" where
  "render w =
     (if \<not> mounted w then w
      else
        (let w1 = (if depsChanged (\<lambda>d. (dep_loginAttempted d, dep_isAuthenticated d, dep_role d, dep_from d)) w
                   then effect_loginSuccess w w else w);
             w2 = (if depsChanged (\<lambda>d. (dep_loginAttempted d, dep_authLoading d, dep_session d, dep_isAuthenticated d)) w
                   then effect_profileNotFound w w1 else w1);
             w3 = (if depsChanged (\<lambda>d. (dep_isAuthenticated d, dep_role d)) w
                   then effect_alreadyAuthenticated w w2 else w2);
             w4 = w3\<lparr>lastRender := Some (depsOf w)\<rparr>
         in if navigated w4 = navigated w then w4 else unmount w4))"

definition flushEffects :: "World \<Rightarrow> World" where
  "flushEffects w = render (render w)"

subsection \<open>Events\<close>

text \<open>
  What can happen to the page: the form is submitted (the page is mounted and the submit
  button is disabled while \<open>isLoading\<close>; one \<open>handleLogin\<close> call is tracked at a time), an
  awaited reply arrives, the auth client delivers a session, or time passes. \<open>react\<close>
  runs the code that the event resumes; \<open>step\<close> also renders.
\<close>

datatype event =
    Submit string string
  | SignInWithPasswordReplies "string option"
  | LogActionReplies rpc_reply
  | GetSessionReplies "Session option"
  | AuthStateChange "Session option"
  | ProfileReplies profile_reply
  | Tick nat

fun react :: "event \<Rightarrow> World \<Rightarrow> World" where
  "react (Submit email password) w =
     (if \<not> mounted w \<or> isLoading w \<or> pc w \<noteq> Idle then w
      else (handleLogin_begin email password w)\<lparr>pc := InSignInWithPassword email\<rparr>)"
| "react (SignInWithPasswordReplies err) w =
     (case pc w of
        InSignInWithPassword email \<Rightarrow>
          (if err = None then (signIn_logLogin email w)\<lparr>pc := InLogAction\<rparr>
           else (case signIn_end err w of
                   (authError, w1) \<Rightarrow> handleLogin_afterSignIn authError (w1\<lparr>pc := Idle\<rparr>)))
      | _ \<Rightarrow> w)"
| "react (LogActionReplies reply) w =
     (case pc w of
        InLogAction \<Rightarrow>
          (case logAction_resume reply w of
             (Thrown ex, w1) \<Rightarrow> w1\<lparr>pc := Idle\<rparr>
           | (Returned u, w1) \<Rightarrow>
               (case signIn_end None w1 of
                  (authError, w2) \<Rightarrow> handleLogin_afterSignIn authError (w2\<lparr>pc := Idle\<rparr>)))
      | _ \<Rightarrow> w)"
| "react (GetSessionReplies s) w = getSession_then s w"
| "react (AuthStateChange s) w = onAuthStateChange s w"
| "react (ProfileReplies reply) w = profile_resolved reply w"
| "react (Tick n) w = advanceClock n w"

definition step :: "event \<Rightarrow> World \<Rightarrow> World" where
  "step e w = flushEffects (react e w)"

fun run :: "event list \<Rightarrow> World \<Rightarrow> World" where
  "run [] w = w"
| "run (e # es) w = run es (step e w)"

text \<open>
  Time passing between events: \<open>withTicks ns es\<close> lets the clock advance by the \<open>i\<close>-th
  number of \<open>ns\<close> before the \<open>i\<close>-th event of \<open>es\<close>.
\<close>

fun withTicks :: "nat list \<Rightarrow> event list \<Rightarrow> event list" where
  "withTicks (n # ns) (e # es) = Tick n # e # withTicks ns es"
| "withTicks [] es = es"
| "withTicks ns [] = []"

text \<open>The page as first mounted, before the provider has heard from the auth client.\<close>

definition initialWorld :: World where
  "initialWorld =
     \<lparr> console = [], requests = [],
       session = None, user = None, authLoading = True,
       error = [], isLoading = False, loginAttempted = False, loginTimeoutRef = None,
       locationFrom = None, navigated = [], lastRender = None, pc = Idle,
       clock = 0, timers = [], nextTimer = 1, mounted = True \<rparr>"

subsection \<open>signUp\<close>

record signUp_userData =
  ud_name :: string
  ud_id_number :: string
  ud_role :: Role

text \<open>
  The reply of \<^verbatim>\<open>supabase.auth.signUp\<close>: the id of \<^verbatim>\<open>authData.user\<close> (or null) and the
  error message (or null). \<open>signUp\<close> takes it, the error of the profile insert (or null)
  and the reply of the audit RPC, and returns the \<^verbatim>\<open>error\<close> of its result.
\<close>

record signUp_reply =
  su_user :: "string option"
  su_error :: "string option"

definition signUp ::
  "string \<Rightarrow> string \<Rightarrow> signUp_userData \<Rightarrow> signUp_reply \<Rightarrow> string option \<Rightarrow> rpc_reply \<Rightarrow>
   World \<Rightarrow> string option outcome \<times> World" where
  "signUp email password userData authReply profileError logReply w =
     (let w1 = send (Auth_signUp email password) (w\<lparr>authLoading := True\<rparr>)
      in case su_error authReply of
           Some authError \<Rightarrow> (Returned (Some authError), w1\<lparr>authLoading := False\<rparr>)
         | None \<Rightarrow>
             (case su_user authReply of
                None \<Rightarrow> (Returned (Some ''Failed to create user account''), w1\<lparr>authLoading := False\<rparr>)
              | Some uid \<Rightarrow>
                  (let userInsert =
                         \<lparr> ins_id = uid, ins_id_number = ud_id_number userData,
                           ins_role = ud_role userData, ins_name = ud_name userData,
                           ins_email = Some email, ins_is_active = True \<rparr>;
                       w2 = send (Users_insert userInsert) w1
                   in case profileError of
                        Some e \<Rightarrow>
                          (Returned (Some e),
                           (console_log LogError ''Error creating user profile:'' (ErrPayload e) w2)
                             \<lparr>authLoading := False\<rparr>)
                      | None \<Rightarrow>
                          (case logAction ''SIGNUP'' (Some (''New user registered: '' @ email)) logReply w2 of
                             (Thrown ex, w3) \<Rightarrow> (Thrown ex, w3)
                           | (Returned u, w3) \<Rightarrow> (Returned None, w3\<lparr>authLoading := False\<rparr>)))))"

subsection \<open>MagicLinkVerify: the profile it creates\<close>

text \<open>
  When the verified session has no profile, the effect of \<open>MagicLinkVerify\<close> inserts one
  into \<^verbatim>\<open>users\<close>. Its role is the page's URL parameter \<^verbatim>\<open>searchParams.get('role')\<close>, a
  string or null that is cast to a role without a check, or STUDENT when the parameter is
  null or empty. \<open>now\<close> is the reading of \<^verbatim>\<open>Date.now()\<close> in decimal.
\<close>

record MagicLinkInsert =
  ml_id :: string
  ml_id_number :: string
  ml_role :: string
  ml_name :: string
  ml_email :: "string option"
  ml_is_active :: bool
  ml_email_verified :: bool
  ml_auth_provider :: string

definition roleToAssign :: "string option \<Rightarrow> string" where
  "roleToAssign intendedRole =
     (case intendedRole of Some r \<Rightarrow> if r \<noteq> [] then r else ''STUDENT'' | None \<Rightarrow> ''STUDENT'')"

definition MagicLinkVerify_insert :: "string option \<Rightarrow> Session \<Rightarrow> string \<Rightarrow> MagicLinkInsert" where
  "MagicLinkVerify_insert intendedRole sess now =
     \<lparr> ml_id = session_user_id sess, ml_id_number = ''ML-'' @ now,
       ml_role = roleToAssign intendedRole,
       ml_name =
         (case session_user_email sess of
            None \<Rightarrow> ''User''
          | Some e \<Rightarrow>
              (let n = takeWhile (\<lambda>c. c \<noteq> CHR ''@'') e in if n \<noteq> [] then n else ''User'')),
       ml_email = session_user_email sess, ml_is_active = True, ml_email_verified = True,
       ml_auth_provider = ''magic_link'' \<rparr>"

subsection \<open>LoginPageV2: the password form\<close>

text \<open>
  The \<open>error\<close> and \<open>isLoading\<close> of \<open>LoginPageV2\<close>, and its \<open>handlePasswordSubmit\<close> before
  and after \<^verbatim>\<open>await signIn(email, password)\<close>. Nothing else on the page sets \<open>error\<close>
  after a sign-in: its one effect navigates when the session is authenticated.
\<close>

record LoginPageV2 =
  v2_error :: string
  v2_isLoading :: bool

definition handlePasswordSubmit_begin :: "LoginPageV2 \<Rightarrow> LoginPageV2" where
  "handlePasswordSubmit_begin p = p\<lparr>v2_error := [], v2_isLoading := True\<rparr>"

definition handlePasswordSubmit_afterSignIn :: "string option \<Rightarrow> LoginPageV2 \<Rightarrow> LoginPageV2" where
  "handlePasswordSubmit_afterSignIn authError p =
     (case authError of
        Some message \<Rightarrow>
          p\<lparr>v2_error := (if message \<noteq> [] then message else MSG_LOGIN_FAILED),
            v2_isLoading := False\<rparr>
      | None \<Rightarrow> p\<lparr>v2_isLoading := False\<rparr>)"

section \<open>Vocabulary of the results\<close>

text \<open>The LOGIN audit requests that have been sent.\<close>

definition isLoginAudit :: "request \<Rightarrow> bool" where
  "isLoginAudit r = (case r of Rpc_log_action action d \<Rightarrow> action = ''LOGIN'' | _ \<Rightarrow> False)"

definition loginAudits :: "World \<Rightarrow> request list" where
  "loginAudits w = filter isLoginAudit (requests w)"

text \<open>A state is settled when it has been rendered: its effects have seen its dependencies.\<close>

definition settled :: "World \<Rightarrow> bool" where
  "settled w = (lastRender w = Some (depsOf w))"

text \<open>
  The Anonymous state of the login page at rest: the page is mounted and rendered, with
  no session, no profile, the form not loading, no sign-in call in flight and no timer
  pending.
\<close>

definition anonymousIdle :: "World \<Rightarrow> bool" where
  "anonymousIdle w =
     (mounted w \<and> session w = None \<and> user w = None \<and> \<not> isLoading w \<and> \<not> loginAttempted w \<and>
      pc w = Idle \<and> loginTimeoutRef w = None \<and> timers w = [] \<and> settled w)"

text \<open>Every such state, written out field by field.\<close>

definition idleWorld ::
  "console_entry list \<Rightarrow> request list \<Rightarrow> bool \<Rightarrow> string \<Rightarrow> string option \<Rightarrow> string list \<Rightarrow>
   nat \<Rightarrow> nat \<Rightarrow> World" where
  "idleWorld c q al er lf nav cl nt =
     \<lparr> console = c, requests = q, session = None, user = None, authLoading = al,
       error = er, isLoading = False, loginAttempted = False, loginTimeoutRef = None,
       locationFrom = lf, navigated = nav,
       lastRender =
         Some \<lparr> dep_loginAttempted = False, dep_isAuthenticated = False, dep_role = None,
                dep_from = (case lf of
                              Some pathname \<Rightarrow> if pathname \<noteq> [] then pathname else ''/dashboard''
                            | None \<Rightarrow> ''/dashboard''),
                dep_authLoading = al, dep_session = None \<rparr>,
       pc = Idle, clock = cl, timers = [], nextTimer = nt, mounted = True \<rparr>"


text \<open>
  The page \<open>w'\<close> is stuck: it is mounted and shows its spinner and no message, the form
  cannot be submitted, no timer is pending and no call of \<open>handleLogin\<close> is in flight.
\<close>

definition spinnerStuck :: "World \<Rightarrow> bool" where
  "spinnerStuck w' =
     (mounted w' \<and> error w' = [] \<and> isLoading w' \<and> \<not> loginAttempted w' \<and>
      timers w' = [] \<and> pc w' = Idle)"

text \<open>
  The sign-in of \<open>usr\<close> has succeeded and the page has been left: session and profile are
  present, the third effect has navigated to the user's destination, nothing else was
  navigated since \<open>w\<close>, and the page is unmounted.
\<close>

definition destination :: "User \<Rightarrow> string" where
  "destination usr = (if user_role usr = ADMIN then ''/admin'' else ''/dashboard'')"

definition signedInAndLeft :: "Session \<Rightarrow> User \<Rightarrow> World \<Rightarrow> World \<Rightarrow> bool" where
  "signedInAndLeft sess usr w w' =
     (session w' = Some sess \<and> user w' = Some usr \<and> \<not> mounted w' \<and> pc w' = Idle \<and>
      navigated w' = navigated w @ [destination usr])"

text \<open>
  The two ways in which a successful sign-in ends. Either the login timer has just been
  scheduled and is pending, held by the ref, and the page's last error was empty; or no
  timer is pending and the page's last error was the profile-not-found message.
\<close>

definition leftWithTimerPending :: "Session \<Rightarrow> User \<Rightarrow> World \<Rightarrow> World \<Rightarrow> bool" where
  "leftWithTimerPending sess usr w w' =
     (signedInAndLeft sess usr w w' \<and>
      timers w' = [(nextTimer w, clock w' + LOGIN_TIMEOUT_MS)] \<and>
      loginTimeoutRef w' = Some (nextTimer w) \<and> error w' = [])"

definition leftAfterNotFoundMessage :: "Session \<Rightarrow> User \<Rightarrow> World \<Rightarrow> World \<Rightarrow> bool" where
  "leftAfterNotFoundMessage sess usr w w' =
     (signedInAndLeft sess usr w w' \<and> timers w' = [] \<and> loginTimeoutRef w' = None \<and>
      error w' = MSG_ACCOUNT_NOT_FOUND)"

section \<open>Example data\<close>

definition staffUser :: User where
  "staffUser =
     \<lparr> user_id = ''u1'', user_id_number = ''S001'', user_role = STAFF,
       user_name = ''Staff'', user_email = Some ''staff@x.edu'', user_is_active = True \<rparr>"

definition adminUser :: User where
  "adminUser =
     \<lparr> user_id = ''a1'', user_id_number = ''ADM001'', user_role = ADMIN,
       user_name = ''Admin'', user_email = Some ''admin@x.edu'', user_is_active = True \<rparr>"

definition sessionOf :: "User \<Rightarrow> Session" where
  "sessionOf u = \<lparr> session_user_id = user_id u, session_user_email = user_email u \<rparr>"

definition authenticatedAs :: "User \<Rightarrow> AuthContextValue" where
  "authenticatedAs u = authContextValue (Some (sessionOf u)) (Some u) False"

definition rbacV2_env :: env where
  "rbacV2_env = [''VITE_ENABLE_ROLE_BASED_ACCESS_V2'' \<mapsto> ''true'']"

text \<open>Scenario C of the specification: the override is enabled for \<open>root@x.edu\<close>.\<close>

definition scenarioC_env :: env where
  "scenarioC_env =
     [''VITE_ENABLE_SUDO_ADMIN'' \<mapsto> ''true'', ''VITE_SUDO_ADMIN_EMAIL'' \<mapsto> ''root@x.edu'']"

text \<open>Someone with an auth account and no profile row, and the reply of their profile query.\<close>

definition newcomerSession :: Session where
  "newcomerSession = \<lparr> session_user_id = ''n1'', session_user_email = Some ''new@x.edu'' \<rparr>"

definition noProfile :: profile_reply where
  "noProfile = \<lparr> reply_data = None, reply_error = Some ''PGRST116'' \<rparr>"

definition staffProfile :: profile_reply where
  "staffProfile = \<lparr> reply_data = Some staffUser, reply_error = None \<rparr>"

text \<open>The login page once the provider has learnt that there is no session.\<close>

definition readyWorld :: World where
  "readyWorld = run [GetSessionReplies None] initialWorld"

text \<open>
  The newcomer signs in: the password is accepted, the auth client delivers the session,
  the profile query finds no row, and the audit RPC is answered with an error.
\<close>

definition noProfileRun :: World where
  "noProfileRun =
     run [Submit ''new@x.edu'' ''pw'', SignInWithPasswordReplies None,
          AuthStateChange (Some newcomerSession), ProfileReplies noProfile,
          LogActionReplies (RpcError ''23503'')] readyWorld"



text \<open>
  The staff member signs in; session and profile arrive while \<open>signIn\<close> still awaits its
  audit RPC, whose reply comes 350 ms after the form was submitted.
\<close>

definition staleTimerRun :: World where
  "staleTimerRun =
     run [Submit ''staff@x.edu'' ''pw'', Tick 40, AuthStateChange (Some (sessionOf staffUser)),
          Tick 60, SignInWithPasswordReplies None, Tick 100, ProfileReplies staffProfile,
          Tick 150, LogActionReplies (RpcData ''log-1'')] readyWorld"

text \<open>The newcomer has submitted the form and \<open>signIn\<close> awaits the password check.\<close>

definition awaitingPassword :: World where
  "awaitingPassword = run [Submit ''new@x.edu'' ''pw''] readyWorld"

definition noEffects :: effects where
  "noEffects = \<lparr> console = [], requests = [] \<rparr>"

definition sudoSignUp :: signUp_userData where
  "sudoSignUp = \<lparr> ud_name = ''Mallory'', ud_id_number = ''X999'', ud_role = SUDO \<rparr>"

definition sudoInsert :: UserInsert where
  "sudoInsert =
     \<lparr> ins_id = ''n1'', ins_id_number = ''X999'', ins_role = SUDO, ins_name = ''Mallory'',
       ins_email = Some ''m@x.edu'', ins_is_active = True \<rparr>"

section \<open>The SUDO guard: results\<close>

text \<open>
  C2. \<open>sanitizeRoleForPersistence\<close> returns null for SUDO, returns each of STAFF, STUDENT
  and ADMIN unchanged (and leaves console and requests alone), and returns null for
  every other input. \<open>assertNotSudoForPersistence\<close> throws exactly when the role is
  SUDO, and for each of the three persisted roles it returns without any effect.
\<close>

theorem sudo_guard_sanitize_and_assert:
  "fst (sanitizeRoleForPersistence (Some ''SUDO'') w) = None \<and>
   sanitizeRoleForPersistence (Some ''STAFF'') w = (Some ''STAFF'', w) \<and>
   sanitizeRoleForPersistence (Some ''STUDENT'') w = (Some ''STUDENT'', w) \<and>
   sanitizeRoleForPersistence (Some ''ADMIN'') w = (Some ''ADMIN'', w) \<and>
   fst (sanitizeRoleForPersistence r w) =
     (if r \<in> {Some ''STAFF'', Some ''STUDENT'', Some ''ADMIN''} then r else None) \<and>
   ((\<exists>msg. fst (assertNotSudoForPersistence r c now w) = Thrown msg) = (r = Some ''SUDO'')) \<and>
   assertNotSudoForPersistence (Some ''STAFF'') c now w = (Returned (), w) \<and>
   assertNotSudoForPersistence (Some ''STUDENT'') c now w = (Returned (), w) \<and>
   assertNotSudoForPersistence (Some ''ADMIN'') c now w = (Returned (), w)"
  by (auto simp: sanitizeRoleForPersistence_def isRolePersistable_def truthy_def SUDO_ROLE_def
        PERSISTABLE_ROLES_def assertNotSudoForPersistence_def Let_def split: option.splits)

text \<open>
  C3, as stated, fails: with the sudo feature disabled and a stored role that is itself
  SUDO, \<open>getEffectiveRole\<close> returns SUDO although the override condition does not hold.
\<close>

theorem getEffectiveRole_sudo_only_if_counterexample:
  "getEffectiveRole Map.empty (Some ''SUDO'') None = Some ''SUDO'' \<and>
   \<not> spec_sudo_override Map.empty None"
  by (simp add: getEffectiveRole_def isSudoSession_def spec_sudo_override_def FEATURE_FLAGS_def
        readEnvFlag_def)

text \<open>
  C3, amended. \<open>getEffectiveRole\<close> returns SUDO whenever the sudo feature is enabled, a
  non-empty override email is configured and a non-empty identity email equals it after
  lowercasing and trimming both; in every other case it returns \<open>dbRole\<close> unchanged
  (null when there is none), whatever that role is.
\<close>

theorem getEffectiveRole_override:
  "getEffectiveRole env dbRole identityEmail =
     (if spec_sudo_override env identityEmail \<and> identityEmail \<noteq> Some [] then Some ''SUDO''
      else dbRole)"
  by (auto simp: getEffectiveRole_def isSudoSession_def spec_sudo_override_def FEATURE_FLAGS_def
        readEnvFlag_def truthy_def SUDO_ROLE_def Let_def split: option.splits)

lemma scenarioC_emails_match:
  "trim (toLowerCase ''Root@X.EDU '') = trim (toLowerCase ''root@x.edu'')"
  by code_simp

text \<open>
  C3, Scenario C: with the override configured as \<open>root@x.edu\<close>, the identity
  \<open>Root@X.EDU\<close> followed by a space has the effective role SUDO.
\<close>

theorem getEffectiveRole_override_witness:
  "getEffectiveRole scenarioC_env (Some ''STAFF'') (Some ''Root@X.EDU '') = Some ''SUDO''"
  using getEffectiveRole_override [of scenarioC_env "Some ''STAFF''" "Some ''Root@X.EDU ''"]
    scenarioC_emails_match
  by (simp add: spec_sudo_override_def scenarioC_env_def)

section \<open>Route guards: results\<close>

text \<open>
  C7, as stated, fails twice. With the RBAC v2 flag off (no environment variable set),
  \<open>RBACGuard\<close> admits a STAFF session to a route that requires ADMIN instead of
  redirecting it; and \<open>ProtectedRoute\<close> redirects an ADMIN session away from a route
  that requires STAFF or STUDENT instead of admitting it.
\<close>

theorem route_guard_counterexample:
  "RBACGuard Map.empty (authenticatedAs staffUser) ''/admin'' [ADMIN] None = Children \<and>
   ProtectedRoute (authenticatedAs adminUser) ''/staff'' (Some [STAFF, STUDENT]) False
     = NavigateTo ''/dashboard'' StateAccessDenied"
  by (simp add: RBACGuard_def ProtectedRoute_def authenticatedAs_def authContextValue_def
        staffUser_def adminUser_def rbacV2Enabled_def FEATURE_FLAGS_def readEnvFlag_def)

text \<open>
  C7, amended. For an authenticated session that is not loading: when the RBAC v2 flag
  is enabled, \<open>RBACGuard\<close> admits ADMIN to every route whose required roles include STAFF,
  STUDENT or ADMIN, and redirects a role that is neither ADMIN nor SUDO and is not among
  the required roles to the fallback path with the access-denied state;
  \<open>ProtectedRoute\<close> redirects every role that is not among a non-empty list of required
  roles to \<open>/dashboard\<close> with the access-denied state.
\<close>

theorem route_guard_decisions:
  assumes "ctx_isAuthenticated auth" and "\<not> ctx_isLoading auth"
  shows "(rbacV2Enabled env \<and> ctx_role auth = Some ADMIN \<and>
            (STAFF \<in> set allowedRoles \<or> STUDENT \<in> set allowedRoles \<or> ADMIN \<in> set allowedRoles)
          \<longrightarrow> RBACGuard env auth location allowedRoles fallbackPath = Children) \<and>
         (rbacV2Enabled env \<and> ctx_role auth \<noteq> Some ADMIN \<and> ctx_role auth \<noteq> Some SUDO \<and>
            ctx_role auth \<notin> Some ` set allowedRoles
          \<longrightarrow> RBACGuard env auth location allowedRoles fallbackPath
                = NavigateTo (fallbackPathOrDefault fallbackPath) StateAccessDenied) \<and>
         (rs \<noteq> [] \<and> ctx_role auth \<notin> Some ` set rs
          \<longrightarrow> ProtectedRoute auth location (Some rs) hasChildren
                = NavigateTo ''/dashboard'' StateAccessDenied)"
  using assms
  by (auto simp: RBACGuard_def ProtectedRoute_def list_ex_iff split: option.splits)

text \<open>
  C7, Scenario E with the flag enabled: \<open>RBACGuard\<close> admits ADMIN to a route for STAFF
  and STUDENT and sends STAFF away from a route for ADMIN; \<open>ProtectedRoute\<close> sends STAFF
  away from the admin routes.
\<close>

theorem route_guard_decisions_witness:
  "ctx_isAuthenticated (authenticatedAs adminUser) \<and> \<not> ctx_isLoading (authenticatedAs adminUser) \<and>
   ctx_isAuthenticated (authenticatedAs staffUser) \<and> \<not> ctx_isLoading (authenticatedAs staffUser) \<and>
   rbacV2Enabled rbacV2_env \<and>
   RBACGuard rbacV2_env (authenticatedAs adminUser) ''/staff'' [STAFF, STUDENT] None = Children \<and>
   RBACGuard rbacV2_env (authenticatedAs staffUser) ''/admin'' [ADMIN] None
     = NavigateTo ''/dashboard'' StateAccessDenied \<and>
   ProtectedRoute (authenticatedAs staffUser) ''/admin'' (Some [ADMIN, SUDO]) False
     = NavigateTo ''/dashboard'' StateAccessDenied"
  using
    route_guard_decisions [of "authenticatedAs adminUser" rbacV2_env "[STAFF, STUDENT]"
      "''/staff''" None "[STAFF]" False]
    route_guard_decisions [of "authenticatedAs staffUser" rbacV2_env "[ADMIN]"
      "''/admin''" None "[ADMIN, SUDO]" False]
  by (simp add: authenticatedAs_def authContextValue_def staffUser_def adminUser_def
        rbacV2Enabled_def FEATURE_FLAGS_def readEnvFlag_def rbacV2_env_def
        fallbackPathOrDefault_def)

text \<open>
  C10. Every feature flag, the RBAC v2 flag among them, is on only when its environment
  value is exactly the string \<open>true\<close>. While the RBAC v2 flag is off, \<open>RBACGuard\<close>
  renders its children for every authenticated session that is not loading, whatever the
  role and the allowed roles; and whenever \<open>RBACGuard\<close> denies access, the flag is on.
\<close>

theorem rbac_v2_flag_disabled_admits_all:
  "readEnvFlag env key = (env key = Some ''true'') \<and>
   MAGIC_LINK (FEATURE_FLAGS env) = (env ''VITE_ENABLE_MAGIC_LINK_AUTH'' = Some ''true'') \<and>
   STAFF_DOMAIN_ENFORCEMENT (FEATURE_FLAGS env)
     = (env ''VITE_ENABLE_STAFF_DOMAIN_ENFORCEMENT'' = Some ''true'') \<and>
   SUDO_ADMIN (FEATURE_FLAGS env) = (env ''VITE_ENABLE_SUDO_ADMIN'' = Some ''true'') \<and>
   rbacV2Enabled env = (env ''VITE_ENABLE_ROLE_BASED_ACCESS_V2'' = Some ''true'') \<and>
   (\<not> rbacV2Enabled env \<and> ctx_isAuthenticated auth \<and> \<not> ctx_isLoading auth
      \<longrightarrow> RBACGuard env auth location allowedRoles fallbackPath = Children) \<and>
   (RBACGuard env auth location allowedRoles fallbackPath = NavigateTo path StateAccessDenied
      \<longrightarrow> rbacV2Enabled env)"
  by (auto simp: RBACGuard_def rbacV2Enabled_def FEATURE_FLAGS_def readEnvFlag_def
        split: option.splits if_splits)

text \<open>
  C10 at concrete inputs: with no environment variable set, and with the value \<open>TRUE\<close>
  in capitals, the flag is off and a STAFF session is admitted to a route for ADMIN.
\<close>

theorem rbac_v2_flag_disabled_admits_all_witness:
  "\<not> rbacV2Enabled Map.empty \<and>
   \<not> rbacV2Enabled [''VITE_ENABLE_ROLE_BASED_ACCESS_V2'' \<mapsto> ''TRUE''] \<and>
   ctx_isAuthenticated (authenticatedAs staffUser) \<and> \<not> ctx_isLoading (authenticatedAs staffUser) \<and>
   RBACGuard Map.empty (authenticatedAs staffUser) ''/admin'' [ADMIN] None = Children \<and>
   RBACGuard [''VITE_ENABLE_ROLE_BASED_ACCESS_V2'' \<mapsto> ''TRUE''] (authenticatedAs staffUser)
     ''/admin'' [ADMIN] None = Children"
  using
    rbac_v2_flag_disabled_admits_all [of Map.empty "''K''" "authenticatedAs staffUser"
      "''/admin''" "[ADMIN]" None "''/dashboard''"]
    rbac_v2_flag_disabled_admits_all [of "[''VITE_ENABLE_ROLE_BASED_ACCESS_V2'' \<mapsto> ''TRUE'']"
      "''K''" "authenticatedAs staffUser" "''/admin''" "[ADMIN]" None "''/dashboard''"]
  by (simp add: authenticatedAs_def authContextValue_def staffUser_def)

section \<open>Row-level security: results\<close>

subsection \<open>The policies select from the table they protect\<close>

lemma sublinks_users: "t \<in> set (sublinks c) \<Longrightarrow> t = Users"
  by (induction c) auto

lemma subs_users:
  assumes "t \<in> set (concat (map (\<lambda>p. sublinks (policy_cond p)) ps))"
  shows "t = Users"
  using assms sublinks_users by auto

lemma firstError_all:
  assumes "xs \<noteq> []" and "\<And>x. x \<in> set xs \<Longrightarrow> f x = Some e"
  shows "firstError (map f xs) = Some e"
  using assms by (cases xs) auto

text \<open>
  Under both versions of the schema, every statement on \<open>users\<close> or on \<open>tutorials\<close>, and
  every \<open>SELECT\<close>, has a condition with a subquery attached.
\<close>

lemma schema_sublinks:
  "st_table st = Users \<or> st_table st = Tutorials \<or> st_operation st = SELECT \<Longrightarrow>
   concat (map (\<lambda>p. sublinks (policy_cond p)) (policies_applied (schema_policies ver) st)) \<noteq> []"
  by (cases ver; cases "st_table st"; cases "st_operation st"; cases "st_reads st";
      simp add: policies_applied_def policies_for_def schema_policies_def base_policies_def
        sudo_policies_def)

lemma subselect_fields:
  "st_table (subselect t) = t" "st_operation (subselect t) = SELECT"
  by (simp_all add: subselect_def)

lemma users_active:
  assumes "Users \<in> set active"
  shows "fireRIRrules (schema_policies ver) active (subselect Users)
           = Some (Infinite_recursion Users)"
  using assms schema_sublinks [of "subselect Users" ver]
  by (subst fireRIRrules.simps) (simp add: subselect_fields Let_def)

lemma users_fresh:
  assumes "Users \<notin> set active"
  shows "fireRIRrules (schema_policies ver) active (subselect Users)
           = Some (Infinite_recursion Users)"
proof -
  let ?subs = "concat (map (\<lambda>p. sublinks (policy_cond p))
                 (policies_applied (schema_policies ver) (subselect Users)))"
  have ne: "?subs \<noteq> []"
    using schema_sublinks [of "subselect Users" ver] by (simp add: subselect_fields)
  have "firstError (map (\<lambda>t. fireRIRrules (schema_policies ver) (active @ [Users]) (subselect t))
          ?subs) = Some (Infinite_recursion Users)"
  proof (rule firstError_all [OF ne])
    fix t assume "t \<in> set ?subs"
    then have "t = Users" by (rule subs_users)
    then show "fireRIRrules (schema_policies ver) (active @ [Users]) (subselect t)
                 = Some (Infinite_recursion Users)"
      by (simp add: users_active)
  qed
  with ne assms show ?thesis
    by (subst fireRIRrules.simps) (simp add: subselect_fields Let_def)
qed

lemma users_select_refused:
  "fireRIRrules (schema_policies ver) active (subselect Users) = Some (Infinite_recursion Users)"
  by (cases "Users \<in> set active") (simp_all add: users_active users_fresh)

text \<open>
  The subquery on \<open>users\<close> brings in the policies of \<open>users\<close>, whose subqueries select
  from \<open>users\<close> again.
\<close>

lemma recursion_found:
  assumes "st_table st = Users \<or> st_table st = Tutorials \<or> st_operation st = SELECT"
  shows "fireRIRrules (schema_policies ver) [] st = Some (Infinite_recursion Users)"
proof -
  let ?subs = "concat (map (\<lambda>p. sublinks (policy_cond p))
                 (policies_applied (schema_policies ver) st))"
  have ne: "?subs \<noteq> []" using assms by (rule schema_sublinks)
  have "firstError (map (\<lambda>t. fireRIRrules (schema_policies ver) ([] @ [st_table st]) (subselect t))
          ?subs) = Some (Infinite_recursion Users)"
  proof (rule firstError_all [OF ne])
    fix t assume "t \<in> set ?subs"
    then have "t = Users" by (rule subs_users)
    then show "fireRIRrules (schema_policies ver) ([] @ [st_table st]) (subselect t)
                 = Some (Infinite_recursion Users)"
      by (simp only: users_select_refused)
  qed
  with ne show ?thesis
    by (subst fireRIRrules.simps) (simp add: Let_def)
qed

text \<open>
  The rewriter does let a statement through when no attached condition has a subquery:
  an insert into \<open>audit_logs\<close> goes on to execution with the one policy for it.
\<close>

lemma audit_logs_insert_rewritten:
  "rewrite (schema_policies ver)
     \<lparr>st_table = Audit_logs, st_operation = INSERT, st_reads = False\<rparr>
     = Rewritten [\<lparr>policy_name = ''authenticated_insert_logs'', policy_table = Audit_logs,
                   policy_command = For INSERT, policy_cond = Uid_is_not_null\<rparr>]"
  by (cases ver;
      simp add: rewrite_def fireRIRrules.simps policies_applied_def policies_for_def
        schema_policies_def base_policies_def sudo_policies_def Let_def)

text \<open>
  C8. Under the base schema and under the migration alike, the store refuses every
  statement of a client on \<open>tutorials\<close> and every statement of a client on \<open>users\<close>,
  whatever the operation and whoever asks, so also when the actor's profile has the role
  STAFF or STUDENT: the statement fails with 42P17 before it is executed. Hence no read
  of a tutorial is granted, in particular none of a tutorial whose target role differs
  from the actor's role, and every read, insert, update and delete on the user listing is
  denied. (The functions \<^verbatim>\<open>get_my_role\<close> and \<^verbatim>\<open>get_my_profile\<close> of schema.sql run with
  their owner's rights and give a caller the caller's own profile; they are not
  statements on the tables.)
\<close>

theorem client_statements_refused:
  "rewrite (schema_policies ver) \<lparr>st_table = Tutorials, st_operation = op, st_reads = rd\<rparr>
     = Refused (Infinite_recursion Users) \<and>
   rewrite (schema_policies ver) \<lparr>st_table = Users, st_operation = op, st_reads = rd\<rparr>
     = Refused (Infinite_recursion Users)"
  by (simp add: rewrite_def recursion_found)

section \<open>The audit emitters: results\<close>

text \<open>
  C9 at its failing inputs. When the RPC resolves with an error object, \<open>logAuthEvent\<close>
  leaves the same console and requests as after a successful append: the failure is
  logged nowhere (on an empty console only the event's own info line is printed). When
  the RPC promise rejects, \<open>logAction\<close> throws to its caller.
\<close>

theorem audit_emitters_failure_handling:
  "snd (logAuthEvent eventType details now (RpcError e) w)
     = snd (logAuthEvent eventType details now (RpcData d) w) \<and>
   console (snd (logAuthEvent MAGIC_LINK_SENT [] ''2026-01-01T00:00:00.000Z''
                   (RpcError ''23503'') noEffects))
     = [ConsoleEntry LogInfo ''[AuthEvent] MAGIC_LINK_SENT:''
          (ObjPayload [(''event'', ''MAGIC_LINK_SENT''),
                       (''timestamp'', ''2026-01-01T00:00:00.000Z'')])] \<and>
   fst (logAction action text (RpcRejects ex) w) = Thrown ex"
  by (simp add: logAuthEvent_def logAction_def logAction_resume_def Let_def console_log_def
        send_def assign_def noEffects_def)

text \<open>
  What the two emitters do handle: \<open>logAction\<close> logs an error result and returns;
  \<open>logAuthEvent\<close> always returns, and logs a rejected promise.
\<close>

lemma audit_emitters_swallowed_failures:
  "fst (logAction action text (RpcError e) w) = Returned () \<and>
   console (snd (logAction action text (RpcError e) w))
     = console w @ [ConsoleEntry LogError ''Error logging action:'' (ErrPayload e)] \<and>
   fst (logAuthEvent eventType details now reply w) = Returned () \<and>
   console (snd (logAuthEvent eventType details now (RpcRejects ex) w))
     = console (snd (logAuthEvent eventType details now (RpcData d) w)) @
       [ConsoleEntry LogError ''[AuthEvent] Failed to persist log:'' (ErrPayload ex)]"
  by (simp add: logAuthEvent_def logAction_def logAction_resume_def logAction_send_def Let_def
        console_log_def send_def split: rpc_reply.splits)

section \<open>Persisted roles: results\<close>

lemma signUp_sends_given_role:
  "Users_insert \<lparr> ins_id = uid, ins_id_number = ud_id_number userData,
       ins_role = ud_role userData, ins_name = ud_name userData, ins_email = Some email,
       ins_is_active = True \<rparr>
     \<in> set (requests (snd (signUp email password userData
                               \<lparr> su_user = Some uid, su_error = None \<rparr> profileError logReply w)))"
  by (simp add: signUp_def Let_def send_def console_log_def logAction_def logAction_resume_def
        logAction_send_def split: option.splits rpc_reply.splits)

lemma signUp_refused:
  "fst (signUp email password userData \<lparr> su_user = Some uid, su_error = None \<rparr>
          (Some e) logReply w) = Returned (Some e) \<and>
   requests (snd (signUp email password userData \<lparr> su_user = Some uid, su_error = None \<rparr>
                    (Some e) logReply w))
     = requests w @
       [Auth_signUp email password,
        Users_insert \<lparr> ins_id = uid, ins_id_number = ud_id_number userData,
          ins_role = ud_role userData, ins_name = ud_name userData, ins_email = Some email,
          ins_is_active = True \<rparr>] \<and>
   console (snd (signUp email password userData \<lparr> su_user = Some uid, su_error = None \<rparr>
                   (Some e) logReply w))
     = console w @ [ConsoleEntry LogError ''Error creating user profile:'' (ErrPayload e)]"
  by (simp add: signUp_def Let_def send_def console_log_def)

lemma guard_refuses_sudo:
  "\<not> isRolePersistable (Some (roleText SUDO)) \<and>
   fst (sanitizeRoleForPersistence (Some (roleText SUDO)) v) = None \<and>
   fst (assertNotSudoForPersistence (Some (roleText SUDO)) ctx now v)
     = Thrown ''SUDO role cannot be persisted to database''"
  by (simp add: isRolePersistable_def PERSISTABLE_ROLES_def sanitizeRoleForPersistence_def
        assertNotSudoForPersistence_def SUDO_ROLE_def truthy_def Let_def)

lemma signUp_sudo_requests:
  "requests (snd (signUp ''m@x.edu'' ''pw'' sudoSignUp \<lparr> su_user = Some ''n1'', su_error = None \<rparr>
                    (Some ''42P17'') logReply readyWorld))
     = [Auth_signUp ''m@x.edu'' ''pw'', Users_insert sudoInsert] \<and>
   ins_role sudoInsert = SUDO"
  by (simp add: signUp_def sudoSignUp_def sudoInsert_def readyWorld_def initialWorld_def
        console_log_def send_def step_def flushEffects_def render_def unmount_def
        depsChanged_def depsOf_def effect_loginSuccess_def effect_profileNotFound_def
        effect_alreadyAuthenticated_def isAuthenticated_def role_def from_path_def
        getSession_then_def Let_def)

text \<open>
  C1 at its failing inputs: \<open>signUp\<close> called with the role SUDO, and \<open>MagicLinkVerify\<close>
  opened with \<^verbatim>\<open>?role=SUDO\<close>. \<open>signUp\<close> puts the role it was given, unchanged, into the
  row of its profile insert, and \<open>MagicLinkVerify\<close> the role of its URL; neither calls the
  guard, which would have refused SUDO, so the row that goes to the store carries SUDO:
  the application neither rejects nor downgrades it. The store refuses the insert, as
  it refuses every statement of a client on \<open>users\<close>, and \<open>signUp\<close> logs and returns the
  error it is given; no row is written. The role constraint of the base schema does not
  admit SUDO, that of the migration does.
\<close>

theorem profile_inserts_unguarded:
  "requests (snd (signUp email password userData \<lparr> su_user = Some uid, su_error = None \<rparr>
                    (Some e) logReply w))
     = requests w @
       [Auth_signUp email password,
        Users_insert \<lparr> ins_id = uid, ins_id_number = ud_id_number userData,
          ins_role = ud_role userData, ins_name = ud_name userData, ins_email = Some email,
          ins_is_active = True \<rparr>] \<and>
   console (snd (signUp email password userData \<lparr> su_user = Some uid, su_error = None \<rparr>
                   (Some e) logReply w))
     = console w @ [ConsoleEntry LogError ''Error creating user profile:'' (ErrPayload e)] \<and>
   fst (signUp email password userData \<lparr> su_user = Some uid, su_error = None \<rparr>
          (Some e) logReply w) = Returned (Some e) \<and>
   requests (snd (signUp ''m@x.edu'' ''pw'' sudoSignUp \<lparr> su_user = Some ''n1'', su_error = None \<rparr>
                    (Some ''42P17'') logReply readyWorld))
     = [Auth_signUp ''m@x.edu'' ''pw'', Users_insert sudoInsert] \<and>
   ins_role sudoInsert = SUDO \<and>
   ml_role (MagicLinkVerify_insert (Some ''SUDO'') sess now) = ''SUDO'' \<and>
   \<not> isRolePersistable (Some (roleText SUDO)) \<and>
   fst (sanitizeRoleForPersistence (Some (roleText SUDO)) v) = None \<and>
   fst (assertNotSudoForPersistence (Some (roleText SUDO)) ctx now v)
     = Thrown ''SUDO role cannot be persisted to database'' \<and>
   rewrite (schema_policies ver) \<lparr>st_table = Users, st_operation = INSERT, st_reads = rd\<rparr>
     = Refused (Infinite_recursion Users) \<and>
   \<not> users_role_check BaseSchema ''SUDO'' \<and> users_role_check AuthUpgradeV2 ''SUDO''"
proof -
  have store: "rewrite (schema_policies ver)
                 \<lparr>st_table = Users, st_operation = INSERT, st_reads = rd\<rparr>
               = Refused (Infinite_recursion Users)"
    by (simp add: rewrite_def recursion_found)
  have ml: "ml_role (MagicLinkVerify_insert (Some ''SUDO'') sess now) = ''SUDO''"
    by (simp add: MagicLinkVerify_insert_def roleToAssign_def)
  have chk: "\<not> users_role_check BaseSchema ''SUDO'' \<and> users_role_check AuthUpgradeV2 ''SUDO''"
    by (simp add: users_role_check_def)
  from signUp_refused [of email password userData uid e logReply w]
       signUp_sudo_requests [of logReply]
       guard_refuses_sudo [of v ctx now] store ml chk
  show ?thesis by blast
qed

section \<open>Sign-in: results\<close>

lemmas page_defs =
  step_def flushEffects_def render_def unmount_def depsChanged_def depsOf_def
  effect_loginSuccess_def effect_profileNotFound_def effect_alreadyAuthenticated_def
  clearLoginTimeout_def clearTimeout_def setTimeout_def navigate_def
  setError_def setIsLoading_def setLoginAttempted_def
  isAuthenticated_def role_def from_path_def
  handleLogin_begin_def handleLogin_afterSignIn_def signIn_begin_def signIn_logLogin_def
  signIn_end_def getSession_then_def onAuthStateChange_def profile_resolved_def
  fetchUserProfile_send_def fetchUserProfile_resume_def
  logAction_send_def logAction_resume_def send_def console_log_def
  advanceClock_def loginTimeout_callback_def LOGIN_TIMEOUT_MS_def

subsection \<open>Which events send a LOGIN audit request\<close>

lemma requests_setters:
  "requests (setError e w) = requests w"
  "requests (setIsLoading b w) = requests w"
  "requests (setLoginAttempted b w) = requests w"
  by (simp_all add: setError_def setIsLoading_def setLoginAttempted_def)

lemma requests_effects:
  "requests (effect_loginSuccess r w) = requests w"
  "requests (effect_profileNotFound r w) = requests w"
  "requests (effect_alreadyAuthenticated r w) = requests w"
  by (simp_all add: effect_loginSuccess_def effect_profileNotFound_def
        effect_alreadyAuthenticated_def clearLoginTimeout_def clearTimeout_def navigate_def
        requests_setters Let_def split: option.splits)

lemma requests_render: "requests (render w) = requests w"
  by (simp add: render_def unmount_def clearTimeout_def Let_def requests_effects
        split: option.splits)

lemma requests_flushEffects: "requests (flushEffects w) = requests w"
  by (simp add: flushEffects_def requests_render)

lemma requests_advanceClock: "requests (advanceClock n w) = requests w"
proof -
  have "requests (foldl (\<lambda>acc p. loginTimeout_callback acc) v due) = requests v"
    for v and due :: "(nat \<times> nat) list"
    by (induction due arbitrary: v) (simp_all add: loginTimeout_callback_def requests_setters)
  then show ?thesis by (simp add: advanceClock_def Let_def)
qed

lemma requests_react:
  "requests (react e w) = requests w @
     (case e of
        Submit email password \<Rightarrow>
          if \<not> mounted w \<or> isLoading w \<or> pc w \<noteq> Idle then []
          else [Auth_signInWithPassword email password]
      | SignInWithPasswordReplies err \<Rightarrow>
          (case pc w of
             InSignInWithPassword email \<Rightarrow>
               if err = None
               then [Rpc_log_action ''LOGIN'' (Text (Some (''User logged in: '' @ email)))]
               else []
           | _ \<Rightarrow> [])
      | GetSessionReplies s \<Rightarrow>
          (case s of Some sess \<Rightarrow> [Users_selectById (session_user_id sess)] | None \<Rightarrow> [])
      | AuthStateChange s \<Rightarrow>
          (case s of Some sess \<Rightarrow> [Users_selectById (session_user_id sess)] | None \<Rightarrow> [])
      | _ \<Rightarrow> [])"
  by (cases e)
     (auto simp: handleLogin_begin_def signIn_begin_def send_def signIn_logLogin_def
        logAction_send_def signIn_end_def handleLogin_afterSignIn_def setTimeout_def
        logAction_resume_def console_log_def getSession_then_def onAuthStateChange_def
        fetchUserProfile_send_def profile_resolved_def fetchUserProfile_resume_def
        requests_advanceClock requests_setters
        split: pc.splits option.splits rpc_reply.splits prod.splits)

text \<open>
  C4, as stated, fails: the newcomer's password is accepted and no profile is found, so
  the session ends verified without a profile, yet the LOGIN audit request has been sent.
\<close>

theorem login_audit_without_profile_counterexample:
  "session noProfileRun = Some newcomerSession \<and> user noProfileRun = None \<and>
   \<not> authLoading noProfileRun \<and> \<not> isAuthenticated noProfileRun \<and>
   loginAudits noProfileRun
     = [Rpc_log_action ''LOGIN'' (Text (Some ''User logged in: new@x.edu''))]"
  by (simp add: noProfileRun_def readyWorld_def initialWorld_def newcomerSession_def
        noProfile_def loginAudits_def isLoginAudit_def page_defs Let_def)

text \<open>
  C4, amended. A LOGIN audit request is sent at exactly one event: when
  \<open>signInWithPassword\<close> answers the pending \<open>signIn\<close> call without an error. That is before
  the profile lookup and whatever its result, so also when the session ends verified
  without a profile. No other event sends one: neither the initial session check nor the
  auth-state listener nor the profile reply that makes the session authenticated.
\<close>

theorem login_audit_emission:
  "loginAudits (step e w) = loginAudits w @
     (case (pc w, e) of
        (InSignInWithPassword email, SignInWithPasswordReplies None) \<Rightarrow>
          [Rpc_log_action ''LOGIN'' (Text (Some (''User logged in: '' @ email)))]
      | _ \<Rightarrow> [])"
  by (simp add: loginAudits_def step_def requests_flushEffects requests_react isLoginAudit_def
        split: event.splits pc.splits option.splits)

lemma awaitingPassword_state:
  "pc awaitingPassword = InSignInWithPassword ''new@x.edu'' \<and> loginAudits awaitingPassword = []"
  by (simp add: awaitingPassword_def readyWorld_def initialWorld_def loginAudits_def
        isLoginAudit_def page_defs Let_def)

text \<open>
  C4 on the example: while the newcomer's \<open>signIn\<close> awaits the password check, the accepting
  reply sends the LOGIN request, and the arrival of a profile sends none.
\<close>

theorem login_audit_emission_witness:
  "loginAudits (step (SignInWithPasswordReplies None) awaitingPassword)
     = [Rpc_log_action ''LOGIN'' (Text (Some ''User logged in: new@x.edu''))] \<and>
   loginAudits (step (ProfileReplies staffProfile) awaitingPassword) = [] \<and>
   loginAudits (step (AuthStateChange (Some newcomerSession)) awaitingPassword) = []"
  using login_audit_emission [of "SignInWithPasswordReplies None" awaitingPassword]
    login_audit_emission [of "ProfileReplies staffProfile" awaitingPassword]
    login_audit_emission [of "AuthStateChange (Some newcomerSession)" awaitingPassword]
    awaitingPassword_state
  by simp


subsection \<open>The profile-not-found and credential-rejected outcomes\<close>

lemma anonymousIdle_idleWorld:
  assumes "anonymousIdle w"
  obtains c q al er lf nav cl nt where "w = idleWorld c q al er lf nav cl nt"
proof (cases w)
  case (fields c q s u al er il la ltr lf nav lr p cl ts nt mt)
  with assms have "w = idleWorld c q al er lf nav cl nt"
    by (simp add: anonymousIdle_def settled_def depsOf_def isAuthenticated_def role_def
          from_path_def idleWorld_def)
  then show ?thesis by (rule that)
qed

lemma shuffles_two:
  "shuffles [a1, a2] [b1, b2] =
     {[a1, a2, b1, b2], [a1, b1, a2, b2], [a1, b1, b2, a2],
      [b1, a1, a2, b2], [b1, a1, b2, a2], [b1, b2, a1, a2]}"
  by auto








text \<open>
  If in the first order the session arrives only after the login wait, the timer has
  fired, and the page shows the timeout message (which is not the credential-rejected
  message either).
\<close>

lemma noProfile_late_idle:
  "LOGIN_TIMEOUT_MS \<le> n3 \<Longrightarrow>
   error (run [Submit email password,
      Tick n1, SignInWithPasswordReplies None,
      Tick n2, LogActionReplies (RpcData d),
      Tick n3, AuthStateChange (Some sess),
      Tick n4, ProfileReplies \<lparr>reply_data = None, reply_error = perr\<rparr>]
        (idleWorld c q al er lf nav cl nt)) = MSG_LOGIN_TIMEOUT"
  "LOGIN_TIMEOUT_MS \<le> n3 \<Longrightarrow>
   error (run [Submit email password,
      Tick n1, SignInWithPasswordReplies None,
      Tick n2, LogActionReplies (RpcError e),
      Tick n3, AuthStateChange (Some sess),
      Tick n4, ProfileReplies \<lparr>reply_data = None, reply_error = perr\<rparr>]
        (idleWorld c q al er lf nav cl nt)) = MSG_LOGIN_TIMEOUT"
  by (cases al; cases perr; hypsubst; simp add: idleWorld_def page_defs Let_def)+

lemma noProfile_late:
  assumes "anonymousIdle w"
    and "\<forall>ex. logReply \<noteq> RpcRejects ex"
    and "LOGIN_TIMEOUT_MS \<le> n3"
  shows "error (run [Submit email password,
      Tick n1, SignInWithPasswordReplies None,
      Tick n2, LogActionReplies logReply,
      Tick n3, AuthStateChange (Some sess),
      Tick n4, ProfileReplies \<lparr>reply_data = None, reply_error = perr\<rparr>] w) = MSG_LOGIN_TIMEOUT"
proof -
  from assms(1) obtain c q al er lf nav cl nt where w: "w = idleWorld c q al er lf nav cl nt"
    by (rule anonymousIdle_idleWorld)
  from assms(2) obtain d e where "logReply = RpcData d \<or> logReply = RpcError e"
    by (cases logReply) auto
  then show ?thesis unfolding w
    by (elim disjE; simp only: noProfile_late_idle [OF assms(3)])
qed

text \<open>
  If the audit RPC of \<open>signIn\<close> rejects, \<open>logAction\<close> throws, \<open>signIn\<close> and \<open>handleLogin\<close>
  end there, and in every order the page keeps its spinner and shows no message.
\<close>

lemma auditRejects_order1:
  "spinnerStuck
     (run [Submit email password,
           Tick n1, SignInWithPasswordReplies None,
           Tick n2, LogActionReplies (RpcRejects ex),
           Tick n3, AuthStateChange (Some sess),
           Tick n4, ProfileReplies \<lparr>reply_data = None, reply_error = perr\<rparr>]
        (idleWorld c q al er lf nav cl nt))"
  by (cases al; cases perr; hypsubst;
      simp add: idleWorld_def spinnerStuck_def page_defs Let_def)

lemma auditRejects_order2:
  "spinnerStuck
     (run [Submit email password,
           Tick n1, SignInWithPasswordReplies None,
           Tick n2, AuthStateChange (Some sess),
           Tick n3, LogActionReplies (RpcRejects ex),
           Tick n4, ProfileReplies \<lparr>reply_data = None, reply_error = perr\<rparr>]
        (idleWorld c q al er lf nav cl nt))"
  by (cases al; cases perr; hypsubst;
      simp add: idleWorld_def spinnerStuck_def page_defs Let_def)

lemma auditRejects_order3:
  "spinnerStuck
     (run [Submit email password,
           Tick n1, SignInWithPasswordReplies None,
           Tick n2, AuthStateChange (Some sess),
           Tick n3, ProfileReplies \<lparr>reply_data = None, reply_error = perr\<rparr>,
           Tick n4, LogActionReplies (RpcRejects ex)]
        (idleWorld c q al er lf nav cl nt))"
  by (cases al; cases perr; hypsubst;
      simp add: idleWorld_def spinnerStuck_def page_defs Let_def)

lemma auditRejects_order4:
  "spinnerStuck
     (run [Submit email password,
           Tick n1, AuthStateChange (Some sess),
           Tick n2, SignInWithPasswordReplies None,
           Tick n3, LogActionReplies (RpcRejects ex),
           Tick n4, ProfileReplies \<lparr>reply_data = None, reply_error = perr\<rparr>]
        (idleWorld c q al er lf nav cl nt))"
  by (cases al; cases perr; hypsubst;
      simp add: idleWorld_def spinnerStuck_def page_defs Let_def)

lemma auditRejects_order5:
  "spinnerStuck
     (run [Submit email password,
           Tick n1, AuthStateChange (Some sess),
           Tick n2, SignInWithPasswordReplies None,
           Tick n3, ProfileReplies \<lparr>reply_data = None, reply_error = perr\<rparr>,
           Tick n4, LogActionReplies (RpcRejects ex)]
        (idleWorld c q al er lf nav cl nt))"
  by (cases al; cases perr; hypsubst;
      simp add: idleWorld_def spinnerStuck_def page_defs Let_def)

lemma auditRejects_order6:
  "spinnerStuck
     (run [Submit email password,
           Tick n1, AuthStateChange (Some sess),
           Tick n2, ProfileReplies \<lparr>reply_data = None, reply_error = perr\<rparr>,
           Tick n3, SignInWithPasswordReplies None,
           Tick n4, LogActionReplies (RpcRejects ex)]
        (idleWorld c q al er lf nav cl nt))"
  by (cases al; cases perr; hypsubst;
      simp add: idleWorld_def spinnerStuck_def page_defs Let_def)

lemma auditRejects_flow:
  assumes "anonymousIdle w"
    and "logReply = RpcRejects ex"
    and "es \<in> shuffles [SignInWithPasswordReplies None, LogActionReplies logReply]
                        [AuthStateChange (Some sess),
                         ProfileReplies \<lparr>reply_data = None, reply_error = perr\<rparr>]"
  shows "spinnerStuck (run (Submit email password # withTicks [n1, n2, n3, n4] es) w)"
proof -
  from assms(1) obtain c q al er lf nav cl nt where w: "w = idleWorld c q al er lf nav cl nt"
    by (rule anonymousIdle_idleWorld)
  let ?a1 = "SignInWithPasswordReplies None" and ?a2 = "LogActionReplies logReply"
  let ?b1 = "AuthStateChange (Some sess)"
  let ?b2 = "ProfileReplies \<lparr>reply_data = None, reply_error = perr\<rparr>"
  from assms(3) consider
      "es = [?a1, ?a2, ?b1, ?b2]" | "es = [?a1, ?b1, ?a2, ?b2]" | "es = [?a1, ?b1, ?b2, ?a2]"
    | "es = [?b1, ?a1, ?a2, ?b2]" | "es = [?b1, ?a1, ?b2, ?a2]" | "es = [?b1, ?b2, ?a1, ?a2]"
    unfolding shuffles_two by blast
  then show ?thesis
  proof cases
    case 1
    show ?thesis using assms(2) unfolding w 1 withTicks.simps
      by (simp only: auditRejects_order1)
  next
    case 2
    show ?thesis using assms(2) unfolding w 2 withTicks.simps
      by (simp only: auditRejects_order2)
  next
    case 3
    show ?thesis using assms(2) unfolding w 3 withTicks.simps
      by (simp only: auditRejects_order3)
  next
    case 4
    show ?thesis using assms(2) unfolding w 4 withTicks.simps
      by (simp only: auditRejects_order4)
  next
    case 5
    show ?thesis using assms(2) unfolding w 5 withTicks.simps
      by (simp only: auditRejects_order5)
  next
    case 6
    show ?thesis using assms(2) unfolding w 6 withTicks.simps
      by (simp only: auditRejects_order6)
  qed
qed


lemma messages_distinct:
  "MSG_ACCOUNT_NOT_FOUND \<noteq> MSG_LOGIN_FAILED \<and> MSG_ACCOUNT_NOT_FOUND \<noteq> MSG_LOGIN_TIMEOUT \<and>
   MSG_LOGIN_TIMEOUT \<noteq> MSG_LOGIN_FAILED"
  by (simp add: MSG_ACCOUNT_NOT_FOUND_def MSG_LOGIN_FAILED_def MSG_LOGIN_TIMEOUT_def)

text \<open>
  \<open>LoginPageV2\<close> has no profile-not-found message: after a sign-in whose password is
  accepted its \<open>error\<close> is empty, whatever the profile lookup finds.
\<close>

lemma LoginPageV2_no_message:
  "v2_error (handlePasswordSubmit_afterSignIn None (handlePasswordSubmit_begin p)) = [] \<and>
   \<not> v2_isLoading (handlePasswordSubmit_afterSignIn None (handlePasswordSubmit_begin p))"
  by (simp add: handlePasswordSubmit_afterSignIn_def handlePasswordSubmit_begin_def)



lemma readyWorld_idle: "anonymousIdle readyWorld"
  by (simp add: readyWorld_def initialWorld_def anonymousIdle_def settled_def page_defs Let_def)


subsection \<open>The login timer\<close>

text \<open>
  Scenario D: when nothing arrives within the 10 seconds after \<open>signIn\<close> returned, the
  timer fires and the page shows the timeout message.
\<close>

lemma login_timeout_fires:
  "error (run [Submit ''staff@x.edu'' ''pw'', SignInWithPasswordReplies None,
               LogActionReplies (RpcData ''log-1''), Tick 9999] readyWorld) = [] \<and>
   error (run [Submit ''staff@x.edu'' ''pw'', SignInWithPasswordReplies None,
               LogActionReplies (RpcData ''log-1''), Tick 9999, Tick 1] readyWorld)
     = MSG_LOGIN_TIMEOUT"
  by (simp add: readyWorld_def initialWorld_def page_defs Let_def)

text \<open>
  A sign-in whose profile is found, in the same six orders. When the profile arrives
  before \<open>signIn\<close> returns (the audit reply comes last), the third effect has navigated
  and the page is unmounted by the time \<open>handleLogin\<close> goes on: it schedules its timer
  all the same, and nothing is left to cancel it.
\<close>

lemma timerPending_order3:
  "leftWithTimerPending sess usr (idleWorld c q al er lf nav cl nt)
     (run [Submit email password,
           Tick n1, SignInWithPasswordReplies None,
           Tick n2, AuthStateChange (Some sess),
           Tick n3, ProfileReplies \<lparr>reply_data = Some usr, reply_error = None\<rparr>,
           Tick n4, LogActionReplies (RpcData d)]
        (idleWorld c q al er lf nav cl nt))"
  "leftWithTimerPending sess usr (idleWorld c q al er lf nav cl nt)
     (run [Submit email password,
           Tick n1, SignInWithPasswordReplies None,
           Tick n2, AuthStateChange (Some sess),
           Tick n3, ProfileReplies \<lparr>reply_data = Some usr, reply_error = None\<rparr>,
           Tick n4, LogActionReplies (RpcError e)]
        (idleWorld c q al er lf nav cl nt))"
  by (cases al; cases "user_role usr = ADMIN";
      simp add: idleWorld_def leftWithTimerPending_def signedInAndLeft_def destination_def
        page_defs Let_def)+

lemma timerPending_order5:
  "leftWithTimerPending sess usr (idleWorld c q al er lf nav cl nt)
     (run [Submit email password,
           Tick n1, AuthStateChange (Some sess),
           Tick n2, SignInWithPasswordReplies None,
           Tick n3, ProfileReplies \<lparr>reply_data = Some usr, reply_error = None\<rparr>,
           Tick n4, LogActionReplies (RpcData d)]
        (idleWorld c q al er lf nav cl nt))"
  "leftWithTimerPending sess usr (idleWorld c q al er lf nav cl nt)
     (run [Submit email password,
           Tick n1, AuthStateChange (Some sess),
           Tick n2, SignInWithPasswordReplies None,
           Tick n3, ProfileReplies \<lparr>reply_data = Some usr, reply_error = None\<rparr>,
           Tick n4, LogActionReplies (RpcError e)]
        (idleWorld c q al er lf nav cl nt))"
  by (cases al; cases "user_role usr = ADMIN";
      simp add: idleWorld_def leftWithTimerPending_def signedInAndLeft_def destination_def
        page_defs Let_def)+

lemma timerPending_order6:
  "leftWithTimerPending sess usr (idleWorld c q al er lf nav cl nt)
     (run [Submit email password,
           Tick n1, AuthStateChange (Some sess),
           Tick n2, ProfileReplies \<lparr>reply_data = Some usr, reply_error = None\<rparr>,
           Tick n3, SignInWithPasswordReplies None,
           Tick n4, LogActionReplies (RpcData d)]
        (idleWorld c q al er lf nav cl nt))"
  "leftWithTimerPending sess usr (idleWorld c q al er lf nav cl nt)
     (run [Submit email password,
           Tick n1, AuthStateChange (Some sess),
           Tick n2, ProfileReplies \<lparr>reply_data = Some usr, reply_error = None\<rparr>,
           Tick n3, SignInWithPasswordReplies None,
           Tick n4, LogActionReplies (RpcError e)]
        (idleWorld c q al er lf nav cl nt))"
  by (cases al; cases "user_role usr = ADMIN";
      simp add: idleWorld_def leftWithTimerPending_def signedInAndLeft_def destination_def
        page_defs Let_def)+

lemma timerPending_flow:
  assumes "anonymousIdle w"
    and "logReply = RpcData d \<or> logReply = RpcError e"
    and "es \<in> shuffles [SignInWithPasswordReplies None, LogActionReplies logReply]
                        [AuthStateChange (Some sess),
                         ProfileReplies \<lparr>reply_data = Some usr, reply_error = None\<rparr>]"
    and "last es = LogActionReplies logReply"
  shows "leftWithTimerPending sess usr w (run (Submit email password # withTicks [n1, n2, n3, n4] es) w)"
proof -
  from assms(1) obtain c q al er lf nav cl nt where w: "w = idleWorld c q al er lf nav cl nt"
    by (rule anonymousIdle_idleWorld)
  let ?a1 = "SignInWithPasswordReplies None" and ?a2 = "LogActionReplies logReply"
  let ?b1 = "AuthStateChange (Some sess)"
  let ?b2 = "ProfileReplies \<lparr>reply_data = Some usr, reply_error = None\<rparr>"
  from assms(3) consider
      "es = [?a1, ?a2, ?b1, ?b2]" | "es = [?a1, ?b1, ?a2, ?b2]" | "es = [?a1, ?b1, ?b2, ?a2]"
    | "es = [?b1, ?a1, ?a2, ?b2]" | "es = [?b1, ?a1, ?b2, ?a2]" | "es = [?b1, ?b2, ?a1, ?a2]"
    unfolding shuffles_two by blast
  then show ?thesis
  proof cases
    case 1
    with assms(4) show ?thesis by simp
  next
    case 2
    with assms(4) show ?thesis by simp
  next
    case 3
    show ?thesis using assms(2) unfolding w 3 withTicks.simps
      by (elim disjE; simp only: timerPending_order3)
  next
    case 4
    with assms(4) show ?thesis by simp
  next
    case 5
    show ?thesis using assms(2) unfolding w 5 withTicks.simps
      by (elim disjE; simp only: timerPending_order5)
  next
    case 6
    show ?thesis using assms(2) unfolding w 6 withTicks.simps
      by (elim disjE; simp only: timerPending_order6)
  qed
qed

text \<open>
  When \<open>signIn\<close> returns before the profile arrives, the page is still mounted with the
  session and no profile yet: the profile-not-found effect runs, cancels the timer and
  displays its message, although the profile is on its way; the page is left when the
  profile arrives.
\<close>

lemma notFoundShown_order1:
  "n3 < LOGIN_TIMEOUT_MS \<Longrightarrow>
   leftAfterNotFoundMessage sess usr (idleWorld c q al er lf nav cl nt)
     (run [Submit email password,
           Tick n1, SignInWithPasswordReplies None,
           Tick n2, LogActionReplies (RpcData d),
           Tick n3, AuthStateChange (Some sess),
           Tick n4, ProfileReplies \<lparr>reply_data = Some usr, reply_error = None\<rparr>]
        (idleWorld c q al er lf nav cl nt))"
  "n3 < LOGIN_TIMEOUT_MS \<Longrightarrow>
   leftAfterNotFoundMessage sess usr (idleWorld c q al er lf nav cl nt)
     (run [Submit email password,
           Tick n1, SignInWithPasswordReplies None,
           Tick n2, LogActionReplies (RpcError e),
           Tick n3, AuthStateChange (Some sess),
           Tick n4, ProfileReplies \<lparr>reply_data = Some usr, reply_error = None\<rparr>]
        (idleWorld c q al er lf nav cl nt))"
  by (cases al; cases "user_role usr = ADMIN";
      simp add: idleWorld_def leftAfterNotFoundMessage_def signedInAndLeft_def destination_def
        page_defs Let_def)+

lemma notFoundShown_order2:
  "leftAfterNotFoundMessage sess usr (idleWorld c q al er lf nav cl nt)
     (run [Submit email password,
           Tick n1, SignInWithPasswordReplies None,
           Tick n2, AuthStateChange (Some sess),
           Tick n3, LogActionReplies (RpcData d),
           Tick n4, ProfileReplies \<lparr>reply_data = Some usr, reply_error = None\<rparr>]
        (idleWorld c q al er lf nav cl nt))"
  "leftAfterNotFoundMessage sess usr (idleWorld c q al er lf nav cl nt)
     (run [Submit email password,
           Tick n1, SignInWithPasswordReplies None,
           Tick n2, AuthStateChange (Some sess),
           Tick n3, LogActionReplies (RpcError e),
           Tick n4, ProfileReplies \<lparr>reply_data = Some usr, reply_error = None\<rparr>]
        (idleWorld c q al er lf nav cl nt))"
  by (cases al; cases "user_role usr = ADMIN";
      simp add: idleWorld_def leftAfterNotFoundMessage_def signedInAndLeft_def destination_def
        page_defs Let_def)+

lemma notFoundShown_order4:
  "leftAfterNotFoundMessage sess usr (idleWorld c q al er lf nav cl nt)
     (run [Submit email password,
           Tick n1, AuthStateChange (Some sess),
           Tick n2, SignInWithPasswordReplies None,
           Tick n3, LogActionReplies (RpcData d),
           Tick n4, ProfileReplies \<lparr>reply_data = Some usr, reply_error = None\<rparr>]
        (idleWorld c q al er lf nav cl nt))"
  "leftAfterNotFoundMessage sess usr (idleWorld c q al er lf nav cl nt)
     (run [Submit email password,
           Tick n1, AuthStateChange (Some sess),
           Tick n2, SignInWithPasswordReplies None,
           Tick n3, LogActionReplies (RpcError e),
           Tick n4, ProfileReplies \<lparr>reply_data = Some usr, reply_error = None\<rparr>]
        (idleWorld c q al er lf nav cl nt))"
  by (cases al; cases "user_role usr = ADMIN";
      simp add: idleWorld_def leftAfterNotFoundMessage_def signedInAndLeft_def destination_def
        page_defs Let_def)+

lemma notFoundShown_flow:
  assumes "anonymousIdle w"
    and "logReply = RpcData d \<or> logReply = RpcError e"
    and "es \<in> shuffles [SignInWithPasswordReplies None, LogActionReplies logReply]
                        [AuthStateChange (Some sess),
                         ProfileReplies \<lparr>reply_data = Some usr, reply_error = None\<rparr>]"
    and "n1 + n2 + n3 + n4 < LOGIN_TIMEOUT_MS"
    and "last es = ProfileReplies \<lparr>reply_data = Some usr, reply_error = None\<rparr>"
  shows "leftAfterNotFoundMessage sess usr w (run (Submit email password # withTicks [n1, n2, n3, n4] es) w)"
proof -
  from assms(1) obtain c q al er lf nav cl nt where w: "w = idleWorld c q al er lf nav cl nt"
    by (rule anonymousIdle_idleWorld)
  let ?a1 = "SignInWithPasswordReplies None" and ?a2 = "LogActionReplies logReply"
  let ?b1 = "AuthStateChange (Some sess)"
  let ?b2 = "ProfileReplies \<lparr>reply_data = Some usr, reply_error = None\<rparr>"
  from assms(4) have lt: "n3 < LOGIN_TIMEOUT_MS" by simp
  from assms(3) consider
      "es = [?a1, ?a2, ?b1, ?b2]" | "es = [?a1, ?b1, ?a2, ?b2]" | "es = [?a1, ?b1, ?b2, ?a2]"
    | "es = [?b1, ?a1, ?a2, ?b2]" | "es = [?b1, ?a1, ?b2, ?a2]" | "es = [?b1, ?b2, ?a1, ?a2]"
    unfolding shuffles_two by blast
  then show ?thesis
  proof cases
    case 1
    show ?thesis using assms(2) unfolding w 1 withTicks.simps
      by (elim disjE; simp only: notFoundShown_order1 [OF lt])
  next
    case 2
    show ?thesis using assms(2) unfolding w 2 withTicks.simps
      by (elim disjE; simp only: notFoundShown_order2)
  next
    case 3
    with assms(5) show ?thesis by simp
  next
    case 4
    show ?thesis using assms(2) unfolding w 4 withTicks.simps
      by (elim disjE; simp only: notFoundShown_order4)
  next
    case 5
    with assms(5) show ?thesis by simp
  next
    case 6
    with assms(5) show ?thesis by simp
  qed
qed

text \<open>
  An unmounted page displays nothing more: callbacks of timers that fire find their
  state updates dropped.
\<close>

lemma callbacks_unmounted:
  assumes "\<not> mounted v"
  shows "foldl (\<lambda>acc p. loginTimeout_callback acc) v due = v"
  using assms
  by (induction due arbitrary: v)
     (simp_all add: loginTimeout_callback_def setError_def setIsLoading_def
        setLoginAttempted_def)

lemma tick_unmounted:
  assumes "\<not> mounted w"
  shows "step (Tick n) w =
           w\<lparr>clock := clock w + n,
             timers := filter (\<lambda>p. \<not> snd p \<le> clock w + n) (timers w)\<rparr>"
proof -
  let ?w1 = "w\<lparr>clock := clock w + n,
               timers := filter (\<lambda>p. \<not> snd p \<le> clock w + n) (timers w)\<rparr>"
  from assms have m: "\<not> mounted ?w1" by simp
  have "advanceClock n w = ?w1"
    by (simp add: advanceClock_def Let_def callbacks_unmounted [OF m])
  with m show ?thesis
    by (simp add: step_def flushEffects_def render_def)
qed

lemma ticks_unmounted:
  assumes "\<not> mounted w"
  shows "error (run (map Tick ns) w) = error w \<and> \<not> mounted (run (map Tick ns) w)"
  using assms
proof (induction ns arbitrary: w)
  case Nil
  then show ?case by simp
next
  case (Cons n ns)
  from Cons.prems have m: "\<not> mounted (step (Tick n) w)"
    and e: "error (step (Tick n) w) = error w"
    by (simp_all add: tick_unmounted)
  from Cons.IH [OF m] e show ?case by simp
qed

text \<open>
  C6 at its failing inputs. From the anonymous page at rest, take a sign-in whose
  password is accepted and whose profile is found, the profile arriving before \<open>signIn\<close>
  returns (the audit RPC not rejecting). When everything has arrived, the sign-in has
  succeeded and the page has been left, and the login timer is pending: \<open>handleLogin\<close>
  scheduled it after the success, and it is not cancelled. It stays pending until the
  login wait is over and fires then. No message appears, because the page is gone.
\<close>

theorem login_success_leaves_timer_pending:
  assumes "anonymousIdle w"
      and "es \<in> shuffles [SignInWithPasswordReplies None, LogActionReplies logReply]
                          [AuthStateChange (Some sess),
                           ProfileReplies \<lparr>reply_data = Some usr, reply_error = None\<rparr>]"
      and "last es = LogActionReplies logReply"
      and "\<forall>ex. logReply \<noteq> RpcRejects ex"
      and "w' = run (Submit email password # withTicks [n1, n2, n3, n4] es) w"
  shows "session w' = Some sess \<and> user w' = Some usr \<and> \<not> mounted w' \<and>
         navigated w' = navigated w @ [destination usr] \<and>
         timers w' = [(nextTimer w, clock w' + LOGIN_TIMEOUT_MS)] \<and>
         loginTimeoutRef w' = Some (nextTimer w) \<and>
         timers (run [Tick n] w')
           = (if LOGIN_TIMEOUT_MS \<le> n then [] else [(nextTimer w, clock w' + LOGIN_TIMEOUT_MS)]) \<and>
         error (run (map Tick ns) w') = []"
proof -
  from assms(4) obtain d e where "logReply = RpcData d \<or> logReply = RpcError e"
    by (cases logReply) auto
  from timerPending_flow [OF assms(1) this assms(2,3)] assms(5)
  have p: "leftWithTimerPending sess usr w w'" by simp
  then have m: "\<not> mounted w'" and t: "timers w' = [(nextTimer w, clock w' + LOGIN_TIMEOUT_MS)]"
    and e: "error w' = []"
    by (simp_all add: leftWithTimerPending_def signedInAndLeft_def)
  have f: "timers (run [Tick n] w')
             = (if LOGIN_TIMEOUT_MS \<le> n then [] else [(nextTimer w, clock w' + LOGIN_TIMEOUT_MS)])"
    by (simp add: tick_unmounted [OF m] t)
  from ticks_unmounted [OF m, of ns] e have g: "error (run (map Tick ns) w') = []" by simp
  from p f g show ?thesis
    by (simp add: leftWithTimerPending_def signedInAndLeft_def)
qed

lemma staleTimerRun_shuffle:
  "[AuthStateChange (Some (sessionOf staffUser)), SignInWithPasswordReplies None,
    ProfileReplies \<lparr>reply_data = Some staffUser, reply_error = None\<rparr>,
    LogActionReplies (RpcData ''log-1'')]
     \<in> shuffles [SignInWithPasswordReplies None, LogActionReplies (RpcData ''log-1'')]
                 [AuthStateChange (Some (sessionOf staffUser)),
                  ProfileReplies \<lparr>reply_data = Some staffUser, reply_error = None\<rparr>]"
  unfolding shuffles_two by simp

lemma staleTimerRun_clock:
  "clock staleTimerRun = 350 \<and> nextTimer readyWorld = 1 \<and> navigated readyWorld = []"
  by (simp add: staleTimerRun_def staffProfile_def staffUser_def sessionOf_def readyWorld_def
        initialWorld_def page_defs Let_def)

text \<open>
  C6 on the example: the staff member's sign-in has succeeded and the page has gone to
  the dashboard; the timer that \<open>handleLogin\<close> scheduled for time 10350 is pending, still
  pending 9999 ms later, and fires after 10000 ms.
\<close>

theorem login_success_leaves_timer_pending_witness:
  "anonymousIdle readyWorld \<and>
   [AuthStateChange (Some (sessionOf staffUser)), SignInWithPasswordReplies None,
    ProfileReplies \<lparr>reply_data = Some staffUser, reply_error = None\<rparr>,
    LogActionReplies (RpcData ''log-1'')]
     \<in> shuffles [SignInWithPasswordReplies None, LogActionReplies (RpcData ''log-1'')]
                 [AuthStateChange (Some (sessionOf staffUser)),
                  ProfileReplies \<lparr>reply_data = Some staffUser, reply_error = None\<rparr>] \<and>
   user staleTimerRun = Some staffUser \<and> \<not> mounted staleTimerRun \<and>
   navigated staleTimerRun = [''/dashboard''] \<and>
   timers staleTimerRun = [(1, 10350)] \<and> loginTimeoutRef staleTimerRun = Some 1 \<and>
   timers (run [Tick 9999] staleTimerRun) = [(1, 10350)] \<and>
   timers (run [Tick 10000] staleTimerRun) = [] \<and>
   error (run (map Tick [10000, 5000]) staleTimerRun) = []"
proof -
  have r: "staleTimerRun =
             run (Submit ''staff@x.edu'' ''pw'' # withTicks [40, 60, 100, 150]
                   [AuthStateChange (Some (sessionOf staffUser)), SignInWithPasswordReplies None,
                    ProfileReplies \<lparr>reply_data = Some staffUser, reply_error = None\<rparr>,
                    LogActionReplies (RpcData ''log-1'')]) readyWorld"
    by (simp add: staleTimerRun_def staffProfile_def)
  have l: "last [AuthStateChange (Some (sessionOf staffUser)), SignInWithPasswordReplies None,
                 ProfileReplies \<lparr>reply_data = Some staffUser, reply_error = None\<rparr>,
                 LogActionReplies (RpcData ''log-1'')] = LogActionReplies (RpcData ''log-1'')"
    by simp
  have nr: "\<forall>ex. RpcData ''log-1'' \<noteq> RpcRejects ex" by simp
  note t = login_success_leaves_timer_pending [OF readyWorld_idle staleTimerRun_shuffle l nr r]
  note c = staleTimerRun_clock
  have d: "destination staffUser = ''/dashboard''"
    by (simp add: destination_def staffUser_def)
  from t [of 0 "[]"] c d
  have a: "user staleTimerRun = Some staffUser" "\<not> mounted staleTimerRun"
    "navigated staleTimerRun = [''/dashboard'']" "timers staleTimerRun = [(1, 10350)]"
    "loginTimeoutRef staleTimerRun = Some 1"
    by (simp_all add: LOGIN_TIMEOUT_MS_def)
  from t [of 9999 "[]"] c have b1: "timers (run [Tick 9999] staleTimerRun) = [(1, 10350)]"
    by (simp add: LOGIN_TIMEOUT_MS_def)
  from t [of 10000 "[10000, 5000]"] c
  have b2: "timers (run [Tick 10000] staleTimerRun) = []"
    and b3: "error (run (map Tick [10000, 5000]) staleTimerRun) = []"
    by (simp_all add: LOGIN_TIMEOUT_MS_def)
  from readyWorld_idle staleTimerRun_shuffle a b1 b2 b3 show ?thesis by blast
qed

text \<open>
  In the other orders no timer is left behind, and in no order does the timeout message
  appear after the success, however far the clock advances.
\<close>

lemma signedIn_never_times_out:
  assumes "anonymousIdle w"
    and "\<forall>ex. logReply \<noteq> RpcRejects ex"
    and "es \<in> shuffles [SignInWithPasswordReplies None, LogActionReplies logReply]
                        [AuthStateChange (Some sess),
                         ProfileReplies \<lparr>reply_data = Some usr, reply_error = None\<rparr>]"
    and "n1 + n2 + n3 + n4 < LOGIN_TIMEOUT_MS"
  shows "error (run (map Tick ns) (run (Submit email password # withTicks [n1, n2, n3, n4] es) w))
           \<noteq> MSG_LOGIN_TIMEOUT"
proof -
  from assms(2) obtain d e where r: "logReply = RpcData d \<or> logReply = RpcError e"
    by (cases logReply) auto
  let ?w' = "run (Submit email password # withTicks [n1, n2, n3, n4] es) w"
  from assms(3) have "last es = LogActionReplies logReply \<or>
      last es = ProfileReplies \<lparr>reply_data = Some usr, reply_error = None\<rparr>"
    unfolding shuffles_two by auto
  then have "\<not> mounted ?w' \<and> (error ?w' = [] \<or> error ?w' = MSG_ACCOUNT_NOT_FOUND)"
  proof
    assume "last es = LogActionReplies logReply"
    from timerPending_flow [OF assms(1) r assms(3) this] show ?thesis
      by (simp add: leftWithTimerPending_def signedInAndLeft_def)
  next
    assume "last es = ProfileReplies \<lparr>reply_data = Some usr, reply_error = None\<rparr>"
    from notFoundShown_flow [OF assms(1) r assms(3,4) this] show ?thesis
      by (simp add: leftAfterNotFoundMessage_def signedInAndLeft_def)
  qed
  then have m: "\<not> mounted ?w'" and e: "error ?w' = [] \<or> error ?w' = MSG_ACCOUNT_NOT_FOUND"
    by simp_all
  have "MSG_LOGIN_TIMEOUT \<noteq> []" by (simp add: MSG_LOGIN_TIMEOUT_def)
  with e messages_distinct have "error ?w' \<noteq> MSG_LOGIN_TIMEOUT" by auto
  with ticks_unmounted [OF m, of ns] show ?thesis by simp
qed

subsection \<open>Two renders settle the page\<close>

text \<open>
  Whatever the state, after the two renders of \<open>flushEffects\<close> the page has been left, or
  no effect has a changed dependency left: a further render would change nothing.
\<close>

lemma setters_frame:
  "session (setError e w) = session w" "user (setError e w) = user w"
  "authLoading (setError e w) = authLoading w" "locationFrom (setError e w) = locationFrom w"
  "loginAttempted (setError e w) = loginAttempted w" "lastRender (setError e w) = lastRender w"
  "mounted (setError e w) = mounted w"
  "session (setIsLoading b w) = session w" "user (setIsLoading b w) = user w"
  "authLoading (setIsLoading b w) = authLoading w"
  "locationFrom (setIsLoading b w) = locationFrom w"
  "loginAttempted (setIsLoading b w) = loginAttempted w"
  "lastRender (setIsLoading b w) = lastRender w" "mounted (setIsLoading b w) = mounted w"
  "session (setLoginAttempted b w) = session w" "user (setLoginAttempted b w) = user w"
  "authLoading (setLoginAttempted b w) = authLoading w"
  "locationFrom (setLoginAttempted b w) = locationFrom w"
  "lastRender (setLoginAttempted b w) = lastRender w"
  "mounted (setLoginAttempted b w) = mounted w"
  by (simp_all add: setError_def setIsLoading_def setLoginAttempted_def)

lemma clearLoginTimeout_frame:
  "session (clearLoginTimeout w) = session w" "user (clearLoginTimeout w) = user w"
  "authLoading (clearLoginTimeout w) = authLoading w"
  "locationFrom (clearLoginTimeout w) = locationFrom w"
  "loginAttempted (clearLoginTimeout w) = loginAttempted w"
  "lastRender (clearLoginTimeout w) = lastRender w"
  "mounted (clearLoginTimeout w) = mounted w"
  by (simp_all add: clearLoginTimeout_def clearTimeout_def split: option.splits)

lemma effects_frame:
  "session (effect_loginSuccess r w) = session w" "user (effect_loginSuccess r w) = user w"
  "authLoading (effect_loginSuccess r w) = authLoading w"
  "locationFrom (effect_loginSuccess r w) = locationFrom w"
  "loginAttempted (effect_loginSuccess r w) = loginAttempted w"
  "mounted (effect_loginSuccess r w) = mounted w"
  "session (effect_profileNotFound r w) = session w" "user (effect_profileNotFound r w) = user w"
  "authLoading (effect_profileNotFound r w) = authLoading w"
  "locationFrom (effect_profileNotFound r w) = locationFrom w"
  "mounted (effect_profileNotFound r w) = mounted w"
  "session (effect_alreadyAuthenticated r w) = session w"
  "user (effect_alreadyAuthenticated r w) = user w"
  "authLoading (effect_alreadyAuthenticated r w) = authLoading w"
  "locationFrom (effect_alreadyAuthenticated r w) = locationFrom w"
  "loginAttempted (effect_alreadyAuthenticated r w) = loginAttempted w"
  "mounted (effect_alreadyAuthenticated r w) = mounted w"
  by (simp_all add: effect_loginSuccess_def effect_profileNotFound_def
        effect_alreadyAuthenticated_def navigate_def Let_def clearLoginTimeout_frame
        setters_frame)

lemma effect_profileNotFound_loginAttempted:
  assumes "mounted w"
  shows "loginAttempted (effect_profileNotFound r w) =
     (loginAttempted w \<and>
      \<not> (loginAttempted r \<and> \<not> authLoading r \<and> session r \<noteq> None \<and> \<not> isAuthenticated r))"
  using assms
  by (simp add: effect_profileNotFound_def Let_def clearLoginTimeout_frame setters_frame
        setLoginAttempted_def)

lemma unmount_frame:
  "session (unmount w) = session w" "user (unmount w) = user w"
  "authLoading (unmount w) = authLoading w" "locationFrom (unmount w) = locationFrom w"
  "loginAttempted (unmount w) = loginAttempted w" "lastRender (unmount w) = lastRender w"
  "\<not> mounted (unmount w)"
  by (simp_all add: unmount_def clearTimeout_def split: option.splits)

lemma render_frame:
  "session (render w) = session w" "user (render w) = user w"
  "authLoading (render w) = authLoading w" "locationFrom (render w) = locationFrom w"
  by (simp_all add: render_def Let_def effects_frame unmount_frame)

lemma render_lastRender:
  assumes "mounted w"
  shows "lastRender (render w) = Some (depsOf w)"
  using assms by (simp add: render_def Let_def unmount_frame)

lemma render_loginAttempted:
  assumes "mounted w"
  shows "loginAttempted (render w) =
     (loginAttempted w \<and>
      \<not> (depsChanged (\<lambda>d. (dep_loginAttempted d, dep_authLoading d, dep_session d,
                             dep_isAuthenticated d)) w \<and>
         \<not> authLoading w \<and> session w \<noteq> None \<and> \<not> isAuthenticated w))"
  using assms
  by (auto simp: render_def Let_def effects_frame unmount_frame
        effect_profileNotFound_loginAttempted)

lemma render_derived:
  "isAuthenticated (render w) = isAuthenticated w" "role (render w) = role w"
  "from_path (render w) = from_path w"
  by (simp_all add: isAuthenticated_def role_def from_path_def render_frame)

lemma render_settled:
  assumes "settled w"
  shows "render w = w"
proof (cases w)
  case (fields c q s u al er il la ltr lf nav lr p cl ts nt mt)
  with assms show ?thesis
    by (simp add: settled_def render_def depsChanged_def depsOf_def isAuthenticated_def role_def
          from_path_def Let_def)
qed

lemma render_no_effect:
  assumes "mounted w" and "\<not> loginAttempted w"
      and "\<not> depsChanged (\<lambda>d. (dep_isAuthenticated d, dep_role d)) w"
  shows "render w = w\<lparr>lastRender := Some (depsOf w)\<rparr>"
  using assms
  by (simp add: render_def Let_def effect_loginSuccess_def effect_profileNotFound_def)

lemma flushEffects_settled: "\<not> mounted (flushEffects w) \<or> settled (flushEffects w)"
proof (cases "mounted w \<and> mounted (render w)")
  case False
  then have "\<not> mounted (flushEffects w)"
    by (auto simp: flushEffects_def render_def)
  then show ?thesis ..
next
  case True
  then have m: "mounted w" and mr: "mounted (render w)" by simp_all
  show ?thesis
  proof (cases "loginAttempted (render w) = loginAttempted w")
    case True
    then have "depsOf (render w) = depsOf w"
      by (simp add: depsOf_def render_derived render_frame)
    then have s: "settled (render w)"
      by (simp add: settled_def render_lastRender [OF m])
    then show ?thesis
      by (simp add: flushEffects_def render_settled)
  next
    case False
    then have la: "\<not> loginAttempted (render w)"
      by (auto simp: render_loginAttempted [OF m])
    have nc: "\<not> depsChanged (\<lambda>d. (dep_isAuthenticated d, dep_role d)) (render w)"
      by (simp add: depsChanged_def render_lastRender [OF m] depsOf_def render_derived)
    have "render (render w) = (render w)\<lparr>lastRender := Some (depsOf (render w))\<rparr>"
      using mr la nc by (rule render_no_effect)
    then show ?thesis
      by (simp add: flushEffects_def settled_def depsOf_def isAuthenticated_def role_def
            from_path_def)
  qed
qed

end
